theory Spec2Isabelle
  imports Main "HOL-Library.Word" "HOL-Library.Signed_Division"
begin

unbundle bit_operations_syntax

section \<open>Data model of the Exynos TMU driver\<close>

text \<open>
  The thermal management unit (TMU) driver is the second translation unit of
  \<^verbatim>\<open>drivers/soc/samsung/exynos-pm.c\<close>.  C integers are modelled as follows:
  \<^verbatim>\<open>u8\<close>, \<^verbatim>\<open>u16\<close> and \<^verbatim>\<open>u32\<close> values are words of that width; \<^verbatim>\<open>int\<close> expressions
  are computed in \<open>int\<close> where the operand types bound the result well inside
  32 bits; \<^verbatim>\<open>/\<close> and \<^verbatim>\<open>%\<close> on \<^verbatim>\<open>int\<close> truncate towards zero (\<open>sdiv\<close>, \<open>smod\<close>).
  A register is addressed by its byte offset from \<^verbatim>\<open>data->base\<close>.
\<close>

type_synonym u8 = "8 word"
type_synonym u16 = "16 word"
type_synonym u32 = "32 word"

text \<open>
  What the C code can do besides returning: the faults of the source.  The
  last one is a read through the link of a list entry that \<^verbatim>\<open>list_del\<close> has
  already unlinked.
\<close>

datatype fault = DivisionByZero | NullPointer | OutOfBounds | PoisonedPointer

text \<open>
  Constants that the source uses but that are defined in headers outside the
  source (\<^verbatim>\<open>exynos_tmu.h\<close>, the kernel configuration).  They are parameters of
  the model.
\<close>

record tmu_header =
  EXYNOS_MIN_TEMP :: int
  EXYNOS_MAX_TEMP :: int
  TYPE_ONE_POINT_TRIMMING :: u32
  TYPE_TWO_POINT_TRIMMING :: u32
  NR_CPUS :: int
  NR_HOTPLUG_CPUS :: int

text \<open>
  The constants that the source file defines itself, and the kernel's error
  number \<^verbatim>\<open>EINVAL\<close>.
\<close>

abbreviation (input) MCELSIUS :: int where "MCELSIUS \<equiv> 1000"
abbreviation (input) TOTAL_SENSORS :: nat where "TOTAL_SENSORS \<equiv> 8"
abbreviation (input) EINVAL :: int where "EINVAL \<equiv> 22"

abbreviation (input) EXYNOS_TMU_REG_TRIMINFO :: nat where "EXYNOS_TMU_REG_TRIMINFO \<equiv> 0x0"
abbreviation (input) EXYNOS_TMU_REG_TRIMINFO1 :: nat where "EXYNOS_TMU_REG_TRIMINFO1 \<equiv> 0x4"
abbreviation (input) EXYNOS_TMU_REG_TRIMINFO2 :: nat where "EXYNOS_TMU_REG_TRIMINFO2 \<equiv> 0x8"
abbreviation (input) EXYNOS_TMU_REG_CONTROL :: nat where "EXYNOS_TMU_REG_CONTROL \<equiv> 0x20"
abbreviation (input) EXYNOS_TMU_REG_AVG_CON :: nat where "EXYNOS_TMU_REG_AVG_CON \<equiv> 0x38"
abbreviation (input) EXYNOS_TMU_REG_CURRENT_TEMP1_0 :: nat where "EXYNOS_TMU_REG_CURRENT_TEMP1_0 \<equiv> 0x40"
abbreviation (input) EXYNOS_THD_TEMP_RISE7_6 :: nat where "EXYNOS_THD_TEMP_RISE7_6 \<equiv> 0x50"
abbreviation (input) EXYNOS_THD_TEMP_FALL7_6 :: nat where "EXYNOS_THD_TEMP_FALL7_6 \<equiv> 0x60"
abbreviation (input) EXYNOS_THD_TEMP_R_OFFSET :: u32 where "EXYNOS_THD_TEMP_R_OFFSET \<equiv> 0x120"
abbreviation (input) EXYNOS_TMU_REG_INTEN :: nat where "EXYNOS_TMU_REG_INTEN \<equiv> 0x110"
abbreviation (input) EXYNOS_TMU_REG_INTPEND0 :: nat where "EXYNOS_TMU_REG_INTPEND0 \<equiv> 0x118"
abbreviation (input) EXYNOS_TMU_REG_INTPEND5 :: nat where "EXYNOS_TMU_REG_INTPEND5 \<equiv> 0x318"
abbreviation (input) EXYNOS_TMU_REG_INTPEN_OFFSET :: nat where "EXYNOS_TMU_REG_INTPEN_OFFSET \<equiv> 0x10"
abbreviation (input) EXYNOS_TMU_TEMP_MASK :: u32 where "EXYNOS_TMU_TEMP_MASK \<equiv> 0x1ff"
abbreviation (input) EXYNOS_TMU_TEMP_SHIFT :: nat where "EXYNOS_TMU_TEMP_SHIFT \<equiv> 9"

text \<open>
  \<^verbatim>\<open>struct exynos_tmu_platform_data\<close> is declared in the absent header; the
  field widths are those of the stores in \<^verbatim>\<open>exynos_of_sensor_conf\<close>.
\<close>

record exynos_tmu_platform_data =
  gain :: u8
  reference_voltage :: u8
  noise_cancel_mode :: u8
  efuse_value :: u32
  first_point_trim :: u8
  second_point_trim :: u8
  default_temp_offset :: u8
  cal_type :: u32

record remote_sensor_info =
  sensor_num :: u16
  cal_type_rs :: u16
  temp_error1_rs :: u32
  temp_error2_rs :: u32

text \<open>
  The values of \<^verbatim>\<open>data->sensing_mode\<close> that \<^verbatim>\<open>exynos8895_tmu_read\<close> tells apart:
  the enumerators \<^verbatim>\<open>AVG\<close>, \<^verbatim>\<open>MAX\<close>, \<^verbatim>\<open>MIN\<close> and every other value (\<^verbatim>\<open>default:\<close>).
\<close>

datatype sensing_type = AVG | MAX_sensing | MIN_sensing | OTHER_sensing

datatype soc_type = SOC_ARCH_EXYNOS8890 | SOC_ARCH_EXYNOS8895

text \<open>
  Modelled from the spec: the thermal zone of the thermal framework, which is
  not in the source.  The driver uses its trip table (temperature and
  hysteresis of each trip, in millidegrees), the name of the active governor
  and the field \<^verbatim>\<open>last_temperature\<close>.
\<close>

record thermal_zone_device =
  trips :: "(int \<times> int) list"
  governor_name :: string
  last_temperature :: int

text \<open>
  A cooling device as the driver sees it: whether \<^verbatim>\<open>ops->set_cur_temp\<close> is
  provided, and the \<^verbatim>\<open>cpufreq_state\<close> of its \<^verbatim>\<open>devdata\<close>.
\<close>

record thermal_cooling_device =
  cdev_id :: int
  has_set_cur_temp :: bool
  cpufreq_state :: int

text \<open>
  \<^verbatim>\<open>struct exynos_tmu_data\<close>.  A pointer that the code tests for, or
  dereferences without a test, is an \<open>option\<close>.  A method pointer names
  the SoC variant whose function it points to (\<^verbatim>\<open>exynos8890_...\<close> or
  \<^verbatim>\<open>exynos8895_...\<close>); \<^verbatim>\<open>tmu_read\<close>, which the code tests, can be null.  The
  field \<^verbatim>\<open>id\<close> is \<open>id_tmu\<close> here.
\<close>

record exynos_tmu_data =
  id_tmu :: int
  hotplug_enable :: bool
  hotplug_in_threshold :: int
  hotplug_out_threshold :: int
  pdata :: exynos_tmu_platform_data
  temp_error1 :: u16
  temp_error2 :: u16
  tzd :: "thermal_zone_device option"
  cool_dev :: "thermal_cooling_device option"
  sensors :: u32
  num_of_remotes :: int
  remote_sensors :: "remote_sensor_info list"
  sensing_mode :: sensing_type
  tmu_initialize :: soc_type
  tmu_control :: soc_type
  tmu_read :: "soc_type option"
  tmu_clear_irqs :: soc_type

text \<open>
  The register bank behind \<^verbatim>\<open>data->base\<close>: the value of each register and the
  sequence of \<^verbatim>\<open>writel\<close> calls made so far (offset and value, oldest first).
  A register keeps the value last written to it.
\<close>

record mmio =
  regs :: "nat \<Rightarrow> u32"
  writes :: "(nat \<times> u32) list"

definition readl :: "mmio \<Rightarrow> nat \<Rightarrow> u32" where
  "readl m off = regs m off"

definition readw :: "mmio \<Rightarrow> nat \<Rightarrow> u16" where
  "readw m off = ucast (regs m off)"

definition writel :: "u32 \<Rightarrow> nat \<Rightarrow> mmio \<Rightarrow> mmio" where
  "writel v off m = m\<lparr>regs := (regs m)(off := v), writes := writes m @ [(off, v)]\<rparr>"

text \<open>The file-scope variables of the driver.\<close>

record tmu_global =
  suspended :: bool
  is_cpu_hotplugged_out :: bool
  dtm_dev_list :: "exynos_tmu_data list"
  pm_notifier_registered :: nat
  thermal_cpu_hotplug_request :: "int list"

section \<open>Calibration: \<^verbatim>\<open>temp_to_code\<close> and \<^verbatim>\<open>code_to_temp\<close>\<close>

text \<open>
  \<^verbatim>\<open>temp\<close> is a \<^verbatim>\<open>u8\<close> parameter, so an assignment of a bound to it is taken
  modulo 256.  The operands of the two-point formula are a \<^verbatim>\<open>u8\<close> difference
  and a \<^verbatim>\<open>u16\<close> difference, whose product needs 25 bits.  The division by
  \<^verbatim>\<open>second_point_trim - first_point_trim\<close> is a fault when that is zero.
\<close>

definition temp_to_code :: "tmu_header \<Rightarrow> exynos_tmu_data \<Rightarrow> u8 \<Rightarrow> fault + int" where
  "temp_to_code H data temp0 =
    (let temp = (if uint temp0 > EXYNOS_MAX_TEMP H then (word_of_int (EXYNOS_MAX_TEMP H) :: u8)
                 else if uint temp0 < EXYNOS_MIN_TEMP H then word_of_int (EXYNOS_MIN_TEMP H)
                 else temp0);
         pd = pdata data
     in if cal_type pd = TYPE_TWO_POINT_TRIMMING H then
          (if uint (second_point_trim pd) - uint (first_point_trim pd) = 0 then Inl DivisionByZero
           else Inr (((uint temp - uint (first_point_trim pd)) *
                      (uint (temp_error2 data) - uint (temp_error1 data)))
                     sdiv (uint (second_point_trim pd) - uint (first_point_trim pd))
                     + uint (temp_error1 data)))
        else if cal_type pd = TYPE_ONE_POINT_TRIMMING H then
          Inr (uint temp + uint (temp_error1 data) - uint (first_point_trim pd))
        else Inr (uint temp + uint (default_temp_offset pd)))"

definition code_to_temp :: "tmu_header \<Rightarrow> exynos_tmu_data \<Rightarrow> u16 \<Rightarrow> fault + int" where
  "code_to_temp H data temp_code =
    (let pd = pdata data;
         clamp = (\<lambda>temp. if temp > EXYNOS_MAX_TEMP H then EXYNOS_MAX_TEMP H
                         else if temp < EXYNOS_MIN_TEMP H then EXYNOS_MIN_TEMP H
                         else temp)
     in if cal_type pd = TYPE_TWO_POINT_TRIMMING H then
          (if uint (temp_error2 data) - uint (temp_error1 data) = 0 then Inl DivisionByZero
           else Inr (clamp (((uint temp_code - uint (temp_error1 data)) *
                             (uint (second_point_trim pd) - uint (first_point_trim pd)))
                            sdiv (uint (temp_error2 data) - uint (temp_error1 data))
                            + uint (first_point_trim pd))))
        else if cal_type pd = TYPE_ONE_POINT_TRIMMING H then
          Inr (clamp (uint temp_code - uint (temp_error1 data) + uint (first_point_trim pd)))
        else Inr (clamp (uint temp_code - uint (default_temp_offset pd))))"

section \<open>Multi-sensor read: \<^verbatim>\<open>exynos8895_tmu_read\<close>\<close>

text \<open>
  One turn of the loop over the sensor indices: the pair is the value of
  \<^verbatim>\<open>count\<close> and \<^verbatim>\<open>result\<close>, both \<^verbatim>\<open>u32\<close> and both 0 before the loop.
\<close>

definition exynos8895_tmu_read_sensor ::
    "exynos_tmu_data \<Rightarrow> mmio \<Rightarrow> nat \<Rightarrow> u32 \<times> u32 \<Rightarrow> u32 \<times> u32" where
  "exynos8895_tmu_read_sensor data m i cr =
    (case cr of (count, result) \<Rightarrow>
      if sensors data AND push_bit i 1 \<noteq> 0 then
        (let reg_offset = (if i < 2 then 0 else ((i - 2) div 3 + 1) * 4);
             bit_offset = (if i < 2 then EXYNOS_TMU_TEMP_SHIFT * i
                           else EXYNOS_TMU_TEMP_SHIFT * ((i - 2) mod 3));
             temp_data = drop_bit bit_offset (readl m (EXYNOS_TMU_REG_CURRENT_TEMP1_0 + reg_offset))
                           AND EXYNOS_TMU_TEMP_MASK
         in (count + 1,
             case sensing_mode data of
               AVG \<Rightarrow> result + temp_data
             | MAX_sensing \<Rightarrow> (if result > temp_data then result else temp_data)
             | MIN_sensing \<Rightarrow> (if result < temp_data then result else temp_data)
             | OTHER_sensing \<Rightarrow> temp_data))
      else (count, result))"

text \<open>
  After the loop, \<^verbatim>\<open>AVG\<close> divides \<^verbatim>\<open>result\<close> by \<^verbatim>\<open>count\<close> (an unsigned division,
  a fault when \<^verbatim>\<open>count\<close> is 0); the \<^verbatim>\<open>u32\<close> result is returned as \<^verbatim>\<open>int\<close>.
\<close>

definition exynos8895_tmu_read :: "exynos_tmu_data \<Rightarrow> mmio \<Rightarrow> fault + int" where
  "exynos8895_tmu_read data m =
    (case fold (exynos8895_tmu_read_sensor data m) [0..<TOTAL_SENSORS] (0, 0) of
      (count, result) \<Rightarrow>
        (case sensing_mode data of
           AVG \<Rightarrow> (if count = 0 then Inl DivisionByZero else Inr (sint (result div count)))
         | MAX_sensing \<Rightarrow> Inr (sint result)
         | MIN_sensing \<Rightarrow> Inr (sint result)
         | OTHER_sensing \<Rightarrow> Inr (sint result)))"

definition exynos8890_tmu_read :: "exynos_tmu_data \<Rightarrow> mmio \<Rightarrow> fault + int" where
  "exynos8890_tmu_read data m =
    Inr (uint (ucast (readw m EXYNOS_TMU_REG_CURRENT_TEMP1_0) AND EXYNOS_TMU_TEMP_MASK))"

section \<open>Interrupt clearing\<close>

definition exynos8890_tmu_clear_irqs :: "exynos_tmu_data \<Rightarrow> mmio \<Rightarrow> mmio" where
  "exynos8890_tmu_clear_irqs data m =
    (let val_irq = readl m EXYNOS_TMU_REG_INTPEND0
     in writel val_irq EXYNOS_TMU_REG_INTPEND0 m)"

definition exynos8895_tmu_clear_irq :: "exynos_tmu_data \<Rightarrow> nat \<Rightarrow> mmio \<Rightarrow> mmio" where
  "exynos8895_tmu_clear_irq data i m =
    (if sensors data AND push_bit i 1 \<noteq> 0 then
       (let pend_reg = (if i < 5 then EXYNOS_TMU_REG_INTPEND0 + EXYNOS_TMU_REG_INTPEN_OFFSET * i
                        else EXYNOS_TMU_REG_INTPEND5 + EXYNOS_TMU_REG_INTPEN_OFFSET * i);
            val_irq = readl m pend_reg
        in writel val_irq pend_reg m)
     else m)"

definition exynos8895_tmu_clear_irqs :: "exynos_tmu_data \<Rightarrow> mmio \<Rightarrow> mmio" where
  "exynos8895_tmu_clear_irqs data m = fold (exynos8895_tmu_clear_irq data) [0..<TOTAL_SENSORS] m"

text \<open>The call through the method pointer \<^verbatim>\<open>data->tmu_clear_irqs\<close>.\<close>

definition call_tmu_clear_irqs :: "exynos_tmu_data \<Rightarrow> mmio \<Rightarrow> mmio" where
  "call_tmu_clear_irqs data m =
    (case tmu_clear_irqs data of
       SOC_ARCH_EXYNOS8890 \<Rightarrow> exynos8890_tmu_clear_irqs data m
     | SOC_ARCH_EXYNOS8895 \<Rightarrow> exynos8895_tmu_clear_irqs data m)"

section \<open>Threshold programming: \<^verbatim>\<open>exynos_tmu_initialize\<close>\<close>

text \<open>
  Modelled from the spec: the trip queries of the thermal framework, which are
  not in the source: the number of trips, the temperature and the hysteresis
  of a trip, and whether a trip index is valid.  The driver asks for the
  temperature and the hysteresis of trips below the number of trips only.
\<close>

definition of_thermal_get_ntrips :: "thermal_zone_device \<Rightarrow> nat" where
  "of_thermal_get_ntrips tz = length (trips tz)"

definition get_trip_temp :: "thermal_zone_device \<Rightarrow> nat \<Rightarrow> int" where
  "get_trip_temp tz i = fst (trips tz ! i)"

definition get_trip_hyst :: "thermal_zone_device \<Rightarrow> nat \<Rightarrow> int" where
  "get_trip_hyst tz i = snd (trips tz ! i)"

definition of_thermal_is_trip_valid :: "thermal_zone_device \<Rightarrow> nat \<Rightarrow> bool" where
  "of_thermal_is_trip_valid tz trip = (trip < of_thermal_get_ntrips tz)"

text \<open>
  The placement of trip \<open>i\<close>: \<^verbatim>\<open>reg_off = ((7 - i) / 2) * 4\<close> and
  \<^verbatim>\<open>bit_off = ((8 - i) % 2)\<close>, computed in \<^verbatim>\<open>int\<close> and stored in
  \<^verbatim>\<open>unsigned int\<close> variables.
\<close>

definition reg_off :: "int \<Rightarrow> u32" where
  "reg_off i = word_of_int (((7 - i) sdiv 2) * 4)"

definition bit_off :: "int \<Rightarrow> u32" where
  "bit_off i = word_of_int ((8 - i) smod 2)"

text \<open>A loop whose body can fault stops at the first fault.\<close>

primrec fold_fault :: "('a \<Rightarrow> 's \<Rightarrow> fault + 's) \<Rightarrow> 'a list \<Rightarrow> 's \<Rightarrow> fault + 's" where
  "fold_fault f [] s = Inr s"
| "fold_fault f (x # xs) s = (case f x s of Inl e \<Rightarrow> Inl e | Inr s' \<Rightarrow> fold_fault f xs s')"

text \<open>
  The first loop of \<^verbatim>\<open>exynos8895_tmu_initialize\<close>, for sensor \<open>i\<close>: the trim
  values of the main sensor go to \<^verbatim>\<open>data\<close>, those of a remote sensor to
  \<^verbatim>\<open>data->remote_sensors[i]\<close>.  The list \<open>remote_sensors\<close> has the allocated
  number of elements; an index beyond it is a fault.
\<close>

definition exynos8895_read_trim ::
    "tmu_header \<Rightarrow> mmio \<Rightarrow> nat \<Rightarrow> exynos_tmu_data \<Rightarrow> fault + exynos_tmu_data" where
  "exynos8895_read_trim H m i data =
    (if sensors data AND push_bit i 1 \<noteq> 0 then
       (let trim_info = readl m (EXYNOS_TMU_REG_TRIMINFO + 4 * i);
            efuse = efuse_value (pdata data)
        in if i = 0 then
             (let pd = (pdata data)\<lparr>cal_type := drop_bit 23 trim_info AND 1\<rparr>;
                  e1 = (ucast (trim_info AND EXYNOS_TMU_TEMP_MASK) :: u16);
                  e1 = (if e1 = 0 then ucast (efuse AND EXYNOS_TMU_TEMP_MASK) else e1);
                  data = data\<lparr>pdata := pd, temp_error1 := e1\<rparr>
              in if cal_type pd = TYPE_TWO_POINT_TRIMMING H then
                   (let e2 = (ucast (drop_bit 9 trim_info AND EXYNOS_TMU_TEMP_MASK) :: u16);
                        e2 = (if e2 = 0 then ucast (drop_bit 9 efuse AND EXYNOS_TMU_TEMP_MASK) else e2)
                    in Inr (data\<lparr>temp_error2 := e2\<rparr>))
                 else Inr data)
           else if i < length (remote_sensors data) then
             (let rs = (remote_sensors data ! i)\<lparr>cal_type_rs := ucast (drop_bit 23 trim_info AND 1)\<rparr>;
                  e1 = trim_info AND EXYNOS_TMU_TEMP_MASK;
                  e1 = (if e1 = 0 then efuse AND EXYNOS_TMU_TEMP_MASK else e1);
                  rs = rs\<lparr>temp_error1_rs := e1\<rparr>;
                  rs = (if cal_type (pdata data) = TYPE_TWO_POINT_TRIMMING H then
                          (let e2 = drop_bit 9 trim_info AND EXYNOS_TMU_TEMP_MASK;
                               e2 = (if e2 = 0 then drop_bit 9 efuse AND EXYNOS_TMU_TEMP_MASK else e2)
                           in rs\<lparr>temp_error2_rs := e2\<rparr>)
                        else rs)
              in Inr (data\<lparr>remote_sensors := (remote_sensors data)[i := rs]\<rparr>))
           else Inl OutOfBounds)
     else Inr data)"

text \<open>
  The body of the threshold loop for sensor \<open>j\<close> and trip \<open>i\<close>.  The state is
  the register bank and the local \<^verbatim>\<open>falling_threshold\<close>, which the code never
  reads back from the register.  The trip temperature is passed to
  \<^verbatim>\<open>temp_to_code\<close> as a \<^verbatim>\<open>u8\<close>; the code is shifted as a 32-bit value.
\<close>

definition exynos8895_program_trip ::
    "tmu_header \<Rightarrow> exynos_tmu_data \<Rightarrow> thermal_zone_device \<Rightarrow> nat \<Rightarrow> nat \<Rightarrow> mmio \<times> u32
      \<Rightarrow> fault + mmio \<times> u32" where
  "exynos8895_program_trip H data tz j i mf =
    (case mf of (m, falling_threshold) \<Rightarrow>
      (let reg = (if j > 0 then reg_off (int i) + EXYNOS_THD_TEMP_R_OFFSET else reg_off (int i));
           bit = bit_off (int i);
           temp = get_trip_temp tz i sdiv MCELSIUS;
           temp_hist = temp - (get_trip_hyst tz i sdiv MCELSIUS)
       in case temp_to_code H data (word_of_int temp) of
            Inl e \<Rightarrow> Inl e
          | Inr threshold_code \<Rightarrow>
              (let rising_threshold = readl m (EXYNOS_THD_TEMP_RISE7_6 + unat reg);
                   rising_threshold = rising_threshold AND
                       NOT (push_bit (16 * unat bit) EXYNOS_TMU_TEMP_MASK);
                   rising_threshold = rising_threshold OR
                       push_bit (16 * unat bit) (word_of_int threshold_code);
                   m = writel rising_threshold (EXYNOS_THD_TEMP_RISE7_6 + unat reg) m
               in case temp_to_code H data (word_of_int temp_hist) of
                    Inl e \<Rightarrow> Inl e
                  | Inr threshold_code \<Rightarrow>
                      (let falling_threshold = falling_threshold AND
                               NOT (push_bit (16 * unat bit) EXYNOS_TMU_TEMP_MASK);
                           falling_threshold = falling_threshold OR
                               push_bit (16 * unat bit) (word_of_int threshold_code);
                           m = writel falling_threshold (EXYNOS_THD_TEMP_FALL7_6 + unat reg) m
                       in Inr (m, falling_threshold)))))"

definition exynos8895_program_sensor ::
    "tmu_header \<Rightarrow> exynos_tmu_data \<Rightarrow> thermal_zone_device \<Rightarrow> nat \<Rightarrow> mmio \<times> u32
      \<Rightarrow> fault + mmio \<times> u32" where
  "exynos8895_program_sensor H data tz j mf =
    (if sensors data AND push_bit j 1 \<noteq> 0 then
       fold_fault (exynos8895_program_trip H data tz j) (rev [0..<of_thermal_get_ntrips tz]) mf
     else Inr mf)"

text \<open>
  \<^verbatim>\<open>strcmp(tz->tzp->governor_name, "power_allocator")\<close> is non-zero when the
  names differ.  The function returns 0 on every path that returns.
\<close>

definition exynos8895_tmu_initialize ::
    "tmu_header \<Rightarrow> exynos_tmu_data \<Rightarrow> mmio \<Rightarrow> fault + int \<times> exynos_tmu_data \<times> mmio" where
  "exynos8895_tmu_initialize H data0 m =
    (case fold_fault (exynos8895_read_trim H m) [0..<TOTAL_SENSORS] data0 of
       Inl e \<Rightarrow> Inl e
     | Inr data \<Rightarrow>
        (case tzd data of
           None \<Rightarrow> Inl NullPointer
         | Some tz \<Rightarrow>
            (case (if governor_name tz \<noteq> ''power_allocator'' then
                     fold_fault (exynos8895_program_sensor H data tz) [0..<TOTAL_SENSORS] (m, 0)
                   else Inr (m, 0)) of
               Inl e \<Rightarrow> Inl e
             | Inr (m', falling_threshold) \<Rightarrow> Inr (0, data, call_tmu_clear_irqs data m'))))"

text \<open>
  \<^verbatim>\<open>exynos8890_tmu_initialize\<close>: one sensor, both trim values read
  unconditionally, the same threshold loop without the remote-sensor offset,
  and no test of the governor.
\<close>

definition exynos8890_read_trim :: "mmio \<Rightarrow> exynos_tmu_data \<Rightarrow> exynos_tmu_data" where
  "exynos8890_read_trim m data =
    (let trim_info = readl m EXYNOS_TMU_REG_TRIMINFO;
         pd = (pdata data)\<lparr>cal_type := drop_bit 23 trim_info AND 1\<rparr>;
         e1 = (ucast (trim_info AND EXYNOS_TMU_TEMP_MASK) :: u16);
         e2 = (ucast (drop_bit 9 trim_info AND EXYNOS_TMU_TEMP_MASK) :: u16);
         e1 = (if e1 = 0 then ucast (efuse_value pd AND EXYNOS_TMU_TEMP_MASK) else e1);
         e2 = (if e2 = 0 then ucast (drop_bit 9 (efuse_value pd) AND EXYNOS_TMU_TEMP_MASK) else e2)
     in data\<lparr>pdata := pd, temp_error1 := e1, temp_error2 := e2\<rparr>)"

definition exynos8890_program_trip ::
    "tmu_header \<Rightarrow> exynos_tmu_data \<Rightarrow> thermal_zone_device \<Rightarrow> nat \<Rightarrow> mmio \<times> u32
      \<Rightarrow> fault + mmio \<times> u32" where
  "exynos8890_program_trip H data tz i mf =
    (case mf of (m, falling_threshold) \<Rightarrow>
      (let reg = reg_off (int i);
           bit = bit_off (int i);
           temp = get_trip_temp tz i sdiv MCELSIUS;
           temp_hist = temp - (get_trip_hyst tz i sdiv MCELSIUS)
       in case temp_to_code H data (word_of_int temp) of
            Inl e \<Rightarrow> Inl e
          | Inr threshold_code \<Rightarrow>
              (let rising_threshold = readl m (EXYNOS_THD_TEMP_RISE7_6 + unat reg);
                   rising_threshold = rising_threshold AND
                       NOT (push_bit (16 * unat bit) EXYNOS_TMU_TEMP_MASK);
                   rising_threshold = rising_threshold OR
                       push_bit (16 * unat bit) (word_of_int threshold_code);
                   m = writel rising_threshold (EXYNOS_THD_TEMP_RISE7_6 + unat reg) m
               in case temp_to_code H data (word_of_int temp_hist) of
                    Inl e \<Rightarrow> Inl e
                  | Inr threshold_code \<Rightarrow>
                      (let falling_threshold = falling_threshold AND
                               NOT (push_bit (16 * unat bit) EXYNOS_TMU_TEMP_MASK);
                           falling_threshold = falling_threshold OR
                               push_bit (16 * unat bit) (word_of_int threshold_code);
                           m = writel falling_threshold (EXYNOS_THD_TEMP_FALL7_6 + unat reg) m
                       in Inr (m, falling_threshold)))))"

definition exynos8890_tmu_initialize ::
    "tmu_header \<Rightarrow> exynos_tmu_data \<Rightarrow> mmio \<Rightarrow> fault + int \<times> exynos_tmu_data \<times> mmio" where
  "exynos8890_tmu_initialize H data0 m =
    (let data = exynos8890_read_trim m data0
     in case tzd data of
          None \<Rightarrow> Inl NullPointer
        | Some tz \<Rightarrow>
           (case fold_fault (exynos8890_program_trip H data tz)
                   (rev [0..<of_thermal_get_ntrips tz]) (m, 0) of
              Inl e \<Rightarrow> Inl e
            | Inr (m', falling_threshold) \<Rightarrow> Inr (0, data, call_tmu_clear_irqs data m')))"

text \<open>\<^verbatim>\<open>exynos_tmu_initialize\<close>: the call through \<^verbatim>\<open>data->tmu_initialize\<close>, under the device lock.\<close>

definition exynos_tmu_initialize ::
    "tmu_header \<Rightarrow> exynos_tmu_data \<Rightarrow> mmio \<Rightarrow> fault + int \<times> exynos_tmu_data \<times> mmio" where
  "exynos_tmu_initialize H data m =
    (case tmu_initialize data of
       SOC_ARCH_EXYNOS8890 \<Rightarrow> exynos8890_tmu_initialize H data m
     | SOC_ARCH_EXYNOS8895 \<Rightarrow> exynos8895_tmu_initialize H data m)"

section \<open>Core and interrupt enable: \<^verbatim>\<open>exynos_tmu_control\<close>\<close>

definition get_con_reg :: "exynos_tmu_data \<Rightarrow> u32 \<Rightarrow> u32" where
  "get_con_reg data con0 =
    (let pd = pdata data;
         con = con0 AND NOT (push_bit 24 0x1f);
         con = con OR push_bit 24 (ucast (reference_voltage pd));
         con = con AND NOT (push_bit 8 0xf);
         con = con OR push_bit 8 (ucast (gain pd))
     in if noise_cancel_mode pd \<noteq> 0 then
          (con AND NOT (push_bit 13 0x7)) OR push_bit 13 (ucast (noise_cancel_mode pd))
        else con)"

definition trip_valid_bit :: "thermal_zone_device \<Rightarrow> nat \<Rightarrow> u32" where
  "trip_valid_bit tz k = push_bit k (if of_thermal_is_trip_valid tz k then 1 else 0)"

text \<open>
  The interrupt-enable word when the unit is switched on: one rising bit for
  each valid trip 7 to 0, copied to the falling bits 16 positions higher.
\<close>

definition trip_interrupt_en :: "thermal_zone_device \<Rightarrow> u32" where
  "trip_interrupt_en tz =
    (let interrupt_en = trip_valid_bit tz 7 OR trip_valid_bit tz 6 OR trip_valid_bit tz 5
                        OR trip_valid_bit tz 4 OR trip_valid_bit tz 3 OR trip_valid_bit tz 2
                        OR trip_valid_bit tz 1 OR trip_valid_bit tz 0
     in interrupt_en OR push_bit 16 interrupt_en)"

text \<open>
  \<^verbatim>\<open>exynos8890_tmu_control\<close> writes the interrupt-enable register and then the
  control register, whatever the governor.  The zone is dereferenced only
  when the unit is switched on.
\<close>

definition exynos8890_tmu_control :: "exynos_tmu_data \<Rightarrow> bool \<Rightarrow> mmio \<Rightarrow> fault + mmio" where
  "exynos8890_tmu_control data on m =
    (let trim_info = readl m EXYNOS_TMU_REG_TRIMINFO;
         trim_info1 = readl m EXYNOS_TMU_REG_TRIMINFO1;
         t_buf_vref_sel = drop_bit 18 trim_info AND 0x1F;
         t_buf_slope_sel = drop_bit 18 trim_info1 AND 0xF;
         con = get_con_reg data (readl m EXYNOS_TMU_REG_CONTROL)
     in if on then
          (case tzd data of
             None \<Rightarrow> Inl NullPointer
           | Some tz \<Rightarrow>
              (let con = con OR push_bit 24 t_buf_vref_sel OR push_bit 8 t_buf_slope_sel
                             OR push_bit 0 1 OR push_bit 12 1;
                   interrupt_en = trip_interrupt_en tz;
                   m = writel interrupt_en EXYNOS_TMU_REG_INTEN m;
                   m = writel con EXYNOS_TMU_REG_CONTROL m
               in Inr m))
        else
          (let con = (con AND NOT (push_bit 0 1)) AND NOT (push_bit 12 1);
               m = writel 0 EXYNOS_TMU_REG_INTEN m;
               m = writel con EXYNOS_TMU_REG_CONTROL m
           in Inr m))"

definition exynos8895_write_inten :: "exynos_tmu_data \<Rightarrow> u32 \<Rightarrow> nat \<Rightarrow> mmio \<Rightarrow> mmio" where
  "exynos8895_write_inten data interrupt_en i m =
    (if sensors data AND push_bit i 1 \<noteq> 0 then
       writel interrupt_en (EXYNOS_TMU_REG_INTEN + 0x10 * i) m
     else m)"

definition exynos8895_tmu_control :: "exynos_tmu_data \<Rightarrow> bool \<Rightarrow> mmio \<Rightarrow> fault + mmio" where
  "exynos8895_tmu_control data on m0 =
    (case tzd data of
       None \<Rightarrow> Inl NullPointer
     | Some tz \<Rightarrow>
        (let con = readl m0 EXYNOS_TMU_REG_CONTROL;
             con = con AND NOT (push_bit 0 1);
             con = con AND NOT (push_bit 12 1);
             m = writel con EXYNOS_TMU_REG_CONTROL m0;
             trim_info = readl m EXYNOS_TMU_REG_TRIMINFO;
             trim_info1 = readl m EXYNOS_TMU_REG_TRIMINFO1;
             trim_info2 = readl m EXYNOS_TMU_REG_TRIMINFO2;
             t_buf_vref_sel = drop_bit 18 trim_info AND 0x1F;
             t_buf_slope_sel = drop_bit 18 trim_info1 AND 0xF;
             avg_sel = drop_bit 18 trim_info2 AND 0x3;
             con = get_con_reg data (readl m EXYNOS_TMU_REG_CONTROL);
             avg_con = readl m EXYNOS_TMU_REG_AVG_CON;
             avg_con = (if avg_sel \<noteq> 0 then avg_con OR ((avg_con AND 0x7) OR 0x0)
                        else avg_con OR ((avg_con AND 0x7) OR 0x6));
             con = (if on then
                      con OR push_bit 24 t_buf_vref_sel OR push_bit 8 t_buf_slope_sel
                          OR push_bit 0 1 OR push_bit 12 1
                    else (con AND NOT (push_bit 0 1)) AND NOT (push_bit 12 1));
             interrupt_en = (if on then trip_interrupt_en tz else 0);
             m = (if governor_name tz \<noteq> ''power_allocator'' then
                    fold (exynos8895_write_inten data interrupt_en) [0..<TOTAL_SENSORS] m
                  else m);
             m = writel con EXYNOS_TMU_REG_CONTROL m;
             m = writel avg_con EXYNOS_TMU_REG_AVG_CON m
         in Inr m))"

text \<open>\<^verbatim>\<open>exynos_tmu_control\<close>: the call through \<^verbatim>\<open>data->tmu_control\<close>, under the device lock.\<close>

definition exynos_tmu_control :: "exynos_tmu_data \<Rightarrow> bool \<Rightarrow> mmio \<Rightarrow> fault + mmio" where
  "exynos_tmu_control data on m =
    (case tmu_control data of
       SOC_ARCH_EXYNOS8890 \<Rightarrow> exynos8890_tmu_control data on m
     | SOC_ARCH_EXYNOS8895 \<Rightarrow> exynos8895_tmu_control data on m)"

section \<open>Reading the temperature: \<^verbatim>\<open>exynos_get_temp\<close>\<close>

text \<open>The call through the method pointer \<^verbatim>\<open>data->tmu_read\<close>.\<close>

definition call_tmu_read :: "soc_type \<Rightarrow> exynos_tmu_data \<Rightarrow> mmio \<Rightarrow> fault + int" where
  "call_tmu_read rd data m =
    (case rd of
       SOC_ARCH_EXYNOS8890 \<Rightarrow> exynos8890_tmu_read data m
     | SOC_ARCH_EXYNOS8895 \<Rightarrow> exynos8895_tmu_read data m)"

text \<open>
  A call of \<^verbatim>\<open>cdev->ops->set_cur_temp(cdev, suspended, temp)\<close> is recorded with
  its three arguments.
\<close>

type_synonym set_cur_temp_call = "thermal_cooling_device \<times> bool \<times> int"

text \<open>
  The result is the return value, the value stored through \<^verbatim>\<open>temp\<close> (if any)
  and the calls of \<^verbatim>\<open>set_cur_temp\<close> made.  The raw code returned by
  \<^verbatim>\<open>tmu_read\<close> is passed to \<^verbatim>\<open>code_to_temp\<close> as a \<^verbatim>\<open>u16\<close>.
\<close>

definition exynos_get_temp ::
    "tmu_header \<Rightarrow> tmu_global \<Rightarrow> exynos_tmu_data option \<Rightarrow> mmio
      \<Rightarrow> fault + int \<times> int option \<times> set_cur_temp_call list" where
  "exynos_get_temp H g p m =
    (case p of
       None \<Rightarrow> Inr (- EINVAL, None, [])
     | Some data \<Rightarrow>
        (case tmu_read data of
           None \<Rightarrow> Inr (- EINVAL, None, [])
         | Some rd \<Rightarrow>
            (case call_tmu_read rd data m of
               Inl e \<Rightarrow> Inl e
             | Inr code \<Rightarrow>
                (case code_to_temp H data (word_of_int code) of
                   Inl e \<Rightarrow> Inl e
                 | Inr t \<Rightarrow>
                    (let temp = t * MCELSIUS
                     in case cool_dev data of
                          None \<Rightarrow> Inr (0, Some temp, [])
                        | Some cdev \<Rightarrow>
                            if has_set_cur_temp cdev \<and> id_tmu data \<noteq> 1 then
                              Inr (0, Some temp, [(cdev, suspended g, temp sdiv 1000)])
                            else Inr (0, Some temp, []))))))"

section \<open>The suspend notifier: \<^verbatim>\<open>exynos_pm_notifier\<close>\<close>

datatype pm_event = PM_SUSPEND_PREPARE | PM_POST_SUSPEND | PM_OTHER_EVENT

text \<open>The body of the loop over \<^verbatim>\<open>dtm_dev_list\<close>, after \<^verbatim>\<open>suspended = true\<close>.\<close>

definition exynos_pm_notify_dev :: "exynos_tmu_data \<Rightarrow> set_cur_temp_call list" where
  "exynos_pm_notify_dev devnode =
    (case cool_dev devnode of
       None \<Rightarrow> []
     | Some cdev \<Rightarrow>
         if has_set_cur_temp cdev \<and> id_tmu devnode \<noteq> 1 then [(cdev, True, 0)] else [])"

text \<open>The function returns \<^verbatim>\<open>NOTIFY_OK\<close> on every path.\<close>

definition exynos_pm_notifier :: "pm_event \<Rightarrow> tmu_global \<Rightarrow> tmu_global \<times> set_cur_temp_call list" where
  "exynos_pm_notifier event g =
    (case event of
       PM_SUSPEND_PREPARE \<Rightarrow>
         (g\<lparr>suspended := True\<rparr>, concat (map exynos_pm_notify_dev (dtm_dev_list g)))
     | PM_POST_SUSPEND \<Rightarrow> (g\<lparr>suspended := False\<rparr>, [])
     | PM_OTHER_EVENT \<Rightarrow> (g, []))"

section \<open>The deferred trip handler: \<^verbatim>\<open>exynos_report_trigger\<close>, \<^verbatim>\<open>exynos_tmu_work\<close>\<close>

text \<open>
  The loop \<^verbatim>\<open>for (i = 0; i < of_thermal_get_ntrips(tz); i++)\<close> of
  \<^verbatim>\<open>exynos_report_trigger\<close>, entered with the counter \<open>i\<close>; its value is the
  counter when the loop is left.
\<close>

function find_trip_level :: "thermal_zone_device \<Rightarrow> nat \<Rightarrow> nat" where
  "find_trip_level tz i =
    (if i < of_thermal_get_ntrips tz then
       (if last_temperature tz < get_trip_temp tz i then i
        else find_trip_level tz (i + 1))
     else i)"
  by pat_completeness auto
termination
  by (relation "measure (\<lambda>(tz, i). of_thermal_get_ntrips tz - i)") auto

declare find_trip_level.simps [simp del]

text \<open>
  The event sent by \<^verbatim>\<open>kobject_uevent_env\<close>: a change event whose environment is
  the number printed with \<^verbatim>\<open>"%u"\<close>.
\<close>

datatype uevent = KOBJ_CHANGE nat

text \<open>
  \<^verbatim>\<open>thermal_zone_device_update\<close> belongs to the thermal framework; it is a
  parameter, applied to the zone before the trips are scanned.
\<close>

definition exynos_report_trigger ::
    "(thermal_zone_device \<Rightarrow> thermal_zone_device) \<Rightarrow> exynos_tmu_data
      \<Rightarrow> exynos_tmu_data \<times> uevent list" where
  "exynos_report_trigger thermal_zone_device_update p =
    (case tzd p of
       None \<Rightarrow> (p, [])
     | Some tz0 \<Rightarrow>
        (let tz = thermal_zone_device_update tz0;
             i = find_trip_level tz 0
         in (p\<lparr>tzd := Some tz\<rparr>, [KOBJ_CHANGE i])))"

text \<open>
  The work item: report, then clear the pending interrupts.  The final
  \<^verbatim>\<open>enable_irq\<close> acts on the interrupt controller, which is outside the model.
\<close>

definition exynos_tmu_work ::
    "(thermal_zone_device \<Rightarrow> thermal_zone_device) \<Rightarrow> exynos_tmu_data \<Rightarrow> mmio
      \<Rightarrow> exynos_tmu_data \<times> mmio \<times> uevent list" where
  "exynos_tmu_work thermal_zone_device_update data m =
    (case exynos_report_trigger thermal_zone_device_update data of
       (data', events) \<Rightarrow> (data', call_tmu_clear_irqs data' m, events))"

section \<open>CPU hotplug throttling: \<^verbatim>\<open>exynos_throttle_cpu_hotplug\<close>\<close>

text \<open>\<^verbatim>\<open>pm_qos_update_request\<close> on \<^verbatim>\<open>thermal_cpu_hotplug_request\<close>: the values requested, oldest first.\<close>

definition pm_qos_update_request :: "int \<Rightarrow> tmu_global \<Rightarrow> tmu_global" where
  "pm_qos_update_request v g = g\<lparr>thermal_cpu_hotplug_request := thermal_cpu_hotplug_request g @ [v]\<rparr>"

text \<open>
  The first statement reads \<^verbatim>\<open>data->cool_dev->devdata\<close>, a fault without a
  cooling device.  The result is the return value, the device and the
  file-scope state.
\<close>

definition exynos_throttle_cpu_hotplug ::
    "tmu_header \<Rightarrow> exynos_tmu_data \<Rightarrow> int \<Rightarrow> tmu_global
      \<Rightarrow> fault + int \<times> exynos_tmu_data \<times> tmu_global" where
  "exynos_throttle_cpu_hotplug H data temp0 g =
    (case cool_dev data of
       None \<Rightarrow> Inl NullPointer
     | Some cpufreq_device \<Rightarrow>
        (let temp = temp0 sdiv MCELSIUS
         in if is_cpu_hotplugged_out g then
              (if temp < hotplug_in_threshold data then
                 Inr (0, data\<lparr>cool_dev := Some (cpufreq_device\<lparr>cpufreq_state := 0\<rparr>)\<rparr>,
                      (pm_qos_update_request (NR_CPUS H) g)\<lparr>is_cpu_hotplugged_out := False\<rparr>)
               else Inr (0, data, g))
            else
              (if temp \<ge> hotplug_out_threshold data then
                 Inr (0, data, pm_qos_update_request (NR_HOTPLUG_CPUS H) (g\<lparr>is_cpu_hotplugged_out := True\<rparr>))
               else Inr (0, data, g))))"

section \<open>The device registry: \<^verbatim>\<open>exynos_tmu_probe\<close>, \<^verbatim>\<open>exynos_tmu_remove\<close>\<close>

text \<open>
  Modelled from the spec: the kernel's list and notifier primitives, which
  are not in the source.  The registry \<^verbatim>\<open>dtm_dev_list\<close> is an ordered list:
  \<^verbatim>\<open>list_add_tail\<close> appends and \<^verbatim>\<open>list_is_singular\<close> holds of a list with one
  entry.  \<^verbatim>\<open>register_pm_notifier\<close> adds one registration of
  \<^verbatim>\<open>exynos_tmu_pm_notifier\<close> and \<^verbatim>\<open>unregister_pm_notifier\<close> removes one if there
  is any.
\<close>

definition list_is_singular :: "'a list \<Rightarrow> bool" where
  "list_is_singular xs = (length xs = 1)"

definition list_add_tail :: "'a \<Rightarrow> 'a list \<Rightarrow> 'a list" where
  "list_add_tail x xs = xs @ [x]"

definition register_pm_notifier :: "tmu_global \<Rightarrow> tmu_global" where
  "register_pm_notifier g = g\<lparr>pm_notifier_registered := pm_notifier_registered g + 1\<rparr>"

definition unregister_pm_notifier :: "tmu_global \<Rightarrow> tmu_global" where
  "unregister_pm_notifier g = g\<lparr>pm_notifier_registered := pm_notifier_registered g - 1\<rparr>"

text \<open>
  The probe up to \<^verbatim>\<open>exynos_tmu_control(pdev, true)\<close> works on the device and
  its registers; every failure there leaves through \<^verbatim>\<open>err_sensor\<close> or
  \<^verbatim>\<open>err_thermal\<close> with the error code and without touching the registry.  The
  parameter \<open>ret\<close> is the outcome of that part (0 when all of it succeeded).
\<close>

definition exynos_tmu_probe :: "int \<Rightarrow> exynos_tmu_data \<Rightarrow> tmu_global \<Rightarrow> int \<times> tmu_global" where
  "exynos_tmu_probe ret data g =
    (if ret \<noteq> 0 then (ret, g)
     else
       (let g = g\<lparr>dtm_dev_list := list_add_tail data (dtm_dev_list g)\<rparr>;
            g = (if list_is_singular (dtm_dev_list g) then register_pm_notifier g else g)
        in (0, g)))"

text \<open>
  The loop of \<^verbatim>\<open>exynos_tmu_remove\<close> is a \<^verbatim>\<open>list_for_each_entry\<close> whose body
  calls \<^verbatim>\<open>list_del\<close> on the current entry and goes on.  \<^verbatim>\<open>list_del\<close> unlinks
  the entry and poisons its links, and the loop takes its next entry from the
  link of the current one: after the first unlink the next turn reads
  \<^verbatim>\<open>devnode->id\<close> through the poisoned link, a fault.  The arguments are the
  \<^verbatim>\<open>id\<close> looked for, the entries already passed and the entries still ahead;
  the result is the fault, if any, and the registry as the loop leaves it.
\<close>

fun exynos_tmu_remove_loop ::
    "int \<Rightarrow> exynos_tmu_data list \<Rightarrow> exynos_tmu_data list
      \<Rightarrow> fault option \<times> exynos_tmu_data list" where
  "exynos_tmu_remove_loop ident passed [] = (None, passed)"
| "exynos_tmu_remove_loop ident passed (devnode # ahead) =
    (if id_tmu devnode = ident then (Some PoisonedPointer, passed @ ahead)
     else exynos_tmu_remove_loop ident (passed @ [devnode]) ahead)"

text \<open>
  The removal tests the registry before the loop.  In between it unregisters
  the sensor and switches the unit off, which acts on the device and its
  registers, not on the registry.  The result is the outcome of the call (the
  return value 0, or the fault of the loop) and the file-scope state that the
  call leaves behind.
\<close>

definition exynos_tmu_remove ::
    "exynos_tmu_data \<Rightarrow> tmu_global \<Rightarrow> (fault + int) \<times> tmu_global" where
  "exynos_tmu_remove data g =
    (let g = (if list_is_singular (dtm_dev_list g) then unregister_pm_notifier g else g)
     in case exynos_tmu_remove_loop (id_tmu data) [] (dtm_dev_list g) of
          (Some e, l) \<Rightarrow> (Inl e, g\<lparr>dtm_dev_list := l\<rparr>)
        | (None, l) \<Rightarrow> (Inr 0, g\<lparr>dtm_dev_list := l\<rparr>))"

section \<open>Register sets and observations\<close>

text \<open>
  The rising and falling threshold registers of the trips 0 to 7, of the main
  sensor and of the remote sensors, as the threshold loop addresses them; the
  interrupt-enable registers of the sensors 0 to 7, as \<^verbatim>\<open>exynos8895_tmu_control\<close>
  addresses them (\<^verbatim>\<open>exynos8890_tmu_control\<close> uses the first).
\<close>

definition threshold_regs :: "nat list" where
  "threshold_regs =
    concat (map (\<lambda>i. [EXYNOS_THD_TEMP_RISE7_6 + unat (reg_off (int i)),
                       EXYNOS_THD_TEMP_FALL7_6 + unat (reg_off (int i)),
                       EXYNOS_THD_TEMP_RISE7_6 + unat (reg_off (int i) + EXYNOS_THD_TEMP_R_OFFSET),
                       EXYNOS_THD_TEMP_FALL7_6 + unat (reg_off (int i) + EXYNOS_THD_TEMP_R_OFFSET)])
                 [0..<8])"

definition inten_regs :: "nat list" where
  "inten_regs = map (\<lambda>i. EXYNOS_TMU_REG_INTEN + 0x10 * i) [0..<TOTAL_SENSORS]"

text \<open>The pending-interrupt register of sensor \<open>i\<close>, as \<^verbatim>\<open>exynos8895_tmu_clear_irqs\<close> addresses it.\<close>

definition intpend_reg :: "nat \<Rightarrow> nat" where
  "intpend_reg i =
    (if i < 5 then EXYNOS_TMU_REG_INTPEND0 + EXYNOS_TMU_REG_INTPEN_OFFSET * i
     else EXYNOS_TMU_REG_INTPEND5 + EXYNOS_TMU_REG_INTPEN_OFFSET * i)"

text \<open>The offsets written between two states of the register bank.\<close>

definition written_since :: "mmio \<Rightarrow> mmio \<Rightarrow> nat list" where
  "written_since m m' = map fst (drop (length (writes m)) (writes m'))"

text \<open>
  The return value of an initialization with the offsets it wrote, and the
  offsets a control call wrote.
\<close>

definition initialize_writes ::
    "mmio \<Rightarrow> fault + int \<times> exynos_tmu_data \<times> mmio \<Rightarrow> fault + int \<times> nat list" where
  "initialize_writes m r =
    (case r of Inl e \<Rightarrow> Inl e | Inr (ret, data, m') \<Rightarrow> Inr (ret, written_since m m'))"

definition control_writes :: "mmio \<Rightarrow> fault + mmio \<Rightarrow> fault + nat list" where
  "control_writes m r = (case r of Inl e \<Rightarrow> Inl e | Inr m' \<Rightarrow> Inr (written_since m m'))"

text \<open>The calls of \<^verbatim>\<open>set_cur_temp\<close> made by a run of \<^verbatim>\<open>exynos_get_temp\<close>.\<close>

definition set_cur_temp_calls ::
    "fault + int \<times> int option \<times> set_cur_temp_call list \<Rightarrow> set_cur_temp_call list" where
  "set_cur_temp_calls r = (case r of Inl e \<Rightarrow> [] | Inr (ret, temp, calls) \<Rightarrow> calls)"

text \<open>
  The registry invariant: the notifier is registered once when the registry is
  non-empty and not at all when it is empty.
\<close>

definition registry_ok :: "tmu_global \<Rightarrow> bool" where
  "registry_ok g \<longleftrightarrow>
    pm_notifier_registered g = (if dtm_dev_list g = [] then 0 else 1)"

section \<open>Concrete inputs\<close>

text \<open>
  A header with a temperature range of 10 to 125 degrees, a device with the
  main sensor only, calibrated at 25 and 85 degrees with two code units per
  degree, a zone with three trips and a register bank in which the sensors 0,
  1 and 2 show the codes 10, 20 and 30.
\<close>

definition sample_header :: tmu_header where
  "sample_header =
    \<lparr>EXYNOS_MIN_TEMP = 10, EXYNOS_MAX_TEMP = 125, TYPE_ONE_POINT_TRIMMING = 0,
     TYPE_TWO_POINT_TRIMMING = 1, NR_CPUS = 8, NR_HOTPLUG_CPUS = 4\<rparr>"

definition sample_pdata :: exynos_tmu_platform_data where
  "sample_pdata =
    \<lparr>gain = 5, reference_voltage = 16, noise_cancel_mode = 4, efuse_value = 0,
     first_point_trim = 25, second_point_trim = 85, default_temp_offset = 50, cal_type = 1\<rparr>"

definition sample_zone :: thermal_zone_device where
  "sample_zone =
    \<lparr>trips = [(70000, 5000), (85000, 5000), (100000, 5000)],
     governor_name = ''power_allocator'', last_temperature = 90000\<rparr>"

definition sample_cdev :: thermal_cooling_device where
  "sample_cdev = \<lparr>cdev_id = 0, has_set_cur_temp = True, cpufreq_state = 3\<rparr>"

definition sample_data :: exynos_tmu_data where
  "sample_data =
    \<lparr>id_tmu = 0, hotplug_enable = True, hotplug_in_threshold = 70, hotplug_out_threshold = 85,
     pdata = sample_pdata, temp_error1 = 50, temp_error2 = 170, tzd = Some sample_zone,
     cool_dev = Some sample_cdev, sensors = 1, num_of_remotes = 0, remote_sensors = [],
     sensing_mode = AVG, tmu_initialize = SOC_ARCH_EXYNOS8895,
     tmu_control = SOC_ARCH_EXYNOS8895, tmu_read = Some SOC_ARCH_EXYNOS8895,
     tmu_clear_irqs = SOC_ARCH_EXYNOS8895\<rparr>"

definition sample_bank :: mmio where
  "sample_bank =
    \<lparr>regs = (\<lambda>off. 0)(EXYNOS_TMU_REG_CURRENT_TEMP1_0 := 10 OR push_bit 9 20,
                       EXYNOS_TMU_REG_CURRENT_TEMP1_0 + 4 := 30),
     writes = []\<rparr>"

definition sample_global :: tmu_global where
  "sample_global =
    \<lparr>suspended = False, is_cpu_hotplugged_out = False, dtm_dev_list = [],
     pm_notifier_registered = 0, thermal_cpu_hotplug_request = []\<rparr>"

section \<open>Auxiliary facts\<close>

lemma upt_sensors: "[0..<TOTAL_SENSORS] = [0, 1, 2, 3, 4, 5, 6, 7]"
  by (simp add: upt_rec)

lemma sdiv_remainder_bound: "b \<noteq> 0 \<Longrightarrow> \<bar>(a::int) - (a sdiv b) * b\<bar> < \<bar>b\<bar>"
  using smod_int_range[where a=a and b=b] by (auto simp add: minus_sdiv_mult_eq_smod)

text \<open>
  Scaling by \<open>a / b\<close> and back by \<open>b / a\<close>, both truncating, loses at most one
  unit when \<open>\<bar>b\<bar> \<le> \<bar>a\<bar>\<close>.
\<close>

lemma scale_and_back:
  fixes x a b :: int
  assumes b: "b \<noteq> 0" and ab: "\<bar>b\<bar> \<le> \<bar>a\<bar>"
  shows "\<bar>(((x * a) sdiv b) * b) sdiv a - x\<bar> \<le> 1"
proof -
  define q where "q = (x * a) sdiv b"
  define y where "y = (q * b) sdiv a"
  from b ab have a: "a \<noteq> 0" by auto
  have r1: "\<bar>x * a - q * b\<bar> < \<bar>b\<bar>"
    unfolding q_def using sdiv_remainder_bound[OF b] by blast
  have r2: "\<bar>q * b - y * a\<bar> < \<bar>a\<bar>"
    unfolding y_def using sdiv_remainder_bound[OF a] by blast
  have "\<bar>x * a - y * a\<bar> < 2 * \<bar>a\<bar>" using r1 r2 ab by linarith
  then have "\<bar>(x - y) * a\<bar> < 2 * \<bar>a\<bar>" by (simp add: algebra_simps)
  then have "\<bar>x - y\<bar> * \<bar>a\<bar> < 2 * \<bar>a\<bar>" by (simp add: abs_mult)
  then have "\<bar>x - y\<bar> < 2" using a by simp
  then show ?thesis unfolding y_def q_def by linarith
qed

lemma uint_u16_of_int: "0 \<le> c \<Longrightarrow> c < 65536 \<Longrightarrow> uint (word_of_int c :: u16) = c"
  by (simp add: uint_word_of_int take_bit_int_eq_self)

text \<open>The trip scan leaves the loop at the first trip above the last temperature.\<close>

lemma find_trip_level_spec:
  "i \<le> of_thermal_get_ntrips tz \<Longrightarrow>
   i \<le> find_trip_level tz i \<and> find_trip_level tz i \<le> of_thermal_get_ntrips tz \<and>
   (\<forall>k. i \<le> k \<and> k < find_trip_level tz i \<longrightarrow> get_trip_temp tz k \<le> last_temperature tz) \<and>
   (find_trip_level tz i < of_thermal_get_ntrips tz \<longrightarrow>
      last_temperature tz < get_trip_temp tz (find_trip_level tz i))"
proof (induction tz i rule: find_trip_level.induct)
  case (1 tz i)
  show ?case
  proof (cases "i < of_thermal_get_ntrips tz")
    case False
    then have "find_trip_level tz i = i" by (subst find_trip_level.simps) simp
    with "1.prems" False show ?thesis by simp
  next
    case True
    show ?thesis
    proof (cases "last_temperature tz < get_trip_temp tz i")
      case below: True
      with True have "find_trip_level tz i = i" by (subst find_trip_level.simps) simp
      with True below show ?thesis by simp
    next
      case above: False
      from True have "i + 1 \<le> of_thermal_get_ntrips tz" by simp
      from "1.IH"[OF True above this] have ih:
        "i + 1 \<le> find_trip_level tz (i + 1)"
        "find_trip_level tz (i + 1) \<le> of_thermal_get_ntrips tz"
        "\<forall>k. i + 1 \<le> k \<and> k < find_trip_level tz (i + 1) \<longrightarrow> get_trip_temp tz k \<le> last_temperature tz"
        "find_trip_level tz (i + 1) < of_thermal_get_ntrips tz \<longrightarrow>
           last_temperature tz < get_trip_temp tz (find_trip_level tz (i + 1))"
        by auto
      have eq: "find_trip_level tz i = find_trip_level tz (i + 1)"
        using True above by (subst find_trip_level.simps) simp
      have "\<forall>k. i \<le> k \<and> k < find_trip_level tz (i + 1) \<longrightarrow> get_trip_temp tz k \<le> last_temperature tz"
      proof (intro allI impI)
        fix k assume k: "i \<le> k \<and> k < find_trip_level tz (i + 1)"
        show "get_trip_temp tz k \<le> last_temperature tz"
        proof (cases "k = i")
          case True then show ?thesis using above by simp
        next
          case False
          with k have "i + 1 \<le> k" by simp
          with k ih(3) show ?thesis by blast
        qed
      qed
      with ih show ?thesis unfolding eq by auto
    qed
  qed
qed

text \<open>What the interrupt clearing writes, and what it leaves alone.\<close>

lemma writel_writes: "writes (writel v off m) = writes m @ [(off, v)]"
  by (simp add: writel_def)

lemma writel_regs: "regs (writel v off m) a = (if a = off then v else regs m a)"
  by (simp add: writel_def)

lemma clear_irq_effect:
  "\<exists>ws. writes (exynos8895_tmu_clear_irq data i m) = writes m @ ws \<and>
        fst ` set ws \<subseteq> {intpend_reg i} \<and>
        (\<forall>a. a \<noteq> intpend_reg i \<longrightarrow> regs (exynos8895_tmu_clear_irq data i m) a = regs m a)"
  by (simp add: exynos8895_tmu_clear_irq_def intpend_reg_def Let_def writel_writes writel_regs)

lemma clear_irqs_fold_effect:
  "\<exists>ws. writes (fold (exynos8895_tmu_clear_irq data) is m) = writes m @ ws \<and>
        fst ` set ws \<subseteq> intpend_reg ` set is \<and>
        (\<forall>a. a \<notin> intpend_reg ` set is \<longrightarrow>
           regs (fold (exynos8895_tmu_clear_irq data) is m) a = regs m a)"
proof (induction "is" arbitrary: m)
  case Nil
  then show ?case by simp
next
  case (Cons i "is")
  obtain ws1 where 1: "writes (exynos8895_tmu_clear_irq data i m) = writes m @ ws1"
      "fst ` set ws1 \<subseteq> {intpend_reg i}"
      "\<forall>a. a \<noteq> intpend_reg i \<longrightarrow> regs (exynos8895_tmu_clear_irq data i m) a = regs m a"
    using clear_irq_effect[of data i m] by blast
  obtain ws2 where 2:
      "writes (fold (exynos8895_tmu_clear_irq data) is (exynos8895_tmu_clear_irq data i m))
         = writes (exynos8895_tmu_clear_irq data i m) @ ws2"
      "fst ` set ws2 \<subseteq> intpend_reg ` set is"
      "\<forall>a. a \<notin> intpend_reg ` set is \<longrightarrow>
           regs (fold (exynos8895_tmu_clear_irq data) is (exynos8895_tmu_clear_irq data i m)) a
             = regs (exynos8895_tmu_clear_irq data i m) a"
    using Cons.IH[of "exynos8895_tmu_clear_irq data i m"] by blast
  show ?case
  proof (intro exI[of _ "ws1 @ ws2"] conjI)
    show "writes (fold (exynos8895_tmu_clear_irq data) (i # is) m) = writes m @ ws1 @ ws2"
      using 1(1) 2(1) by simp
    show "fst ` set (ws1 @ ws2) \<subseteq> intpend_reg ` set (i # is)"
      using 1(2) 2(2) by auto
    show "\<forall>a. a \<notin> intpend_reg ` set (i # is) \<longrightarrow>
           regs (fold (exynos8895_tmu_clear_irq data) (i # is) m) a = regs m a"
      using 1(3) 2(3) by auto
  qed
qed

lemma call_clear_irqs_effect:
  "\<exists>ws. writes (call_tmu_clear_irqs data m) = writes m @ ws \<and>
        fst ` set ws \<subseteq> intpend_reg ` {0..<TOTAL_SENSORS} \<and>
        (\<forall>a. a \<notin> intpend_reg ` {0..<TOTAL_SENSORS} \<longrightarrow> regs (call_tmu_clear_irqs data m) a = regs m a)"
proof (cases "tmu_clear_irqs data")
  case SOC_ARCH_EXYNOS8890
  have "intpend_reg 0 = EXYNOS_TMU_REG_INTPEND0" by (simp add: intpend_reg_def)
  then have "EXYNOS_TMU_REG_INTPEND0 \<in> intpend_reg ` {0..<TOTAL_SENSORS}"
    by (metis atLeastLessThan_iff imageI zero_less_numeral le0)
  then show ?thesis using SOC_ARCH_EXYNOS8890
    by (auto simp add: call_tmu_clear_irqs_def exynos8890_tmu_clear_irqs_def Let_def
        writel_writes writel_regs)
next
  case SOC_ARCH_EXYNOS8895
  then show ?thesis
    using clear_irqs_fold_effect[of data "[0..<TOTAL_SENSORS]" m]
    by (simp add: call_tmu_clear_irqs_def exynos8895_tmu_clear_irqs_def)
qed

lemma written_since_append: "writes m' = writes m @ ws \<Longrightarrow> written_since m m' = map fst ws"
  by (simp add: written_since_def)

lemma threshold_regs_eval:
  "set threshold_regs = {0x50, 0x54, 0x58, 0x5c, 0x60, 0x64, 0x68, 0x6c,
      0x170, 0x174, 0x178, 0x17c, 0x180, 0x184, 0x188, 0x18c}"
  by (simp add: threshold_regs_def reg_off_def signed_divide_int_def upt_sensors) auto

lemma intpend_regs_eval:
  "intpend_reg ` {0..<TOTAL_SENSORS} = {0x118, 0x128, 0x138, 0x148, 0x158, 0x368, 0x378, 0x388}"
proof -
  have "{0..<TOTAL_SENSORS} = set [0..<TOTAL_SENSORS]" by simp
  also have "\<dots> = {0, 1, 2, 3, 4, 5, 6, 7}" unfolding upt_sensors by simp
  finally show ?thesis by (simp add: intpend_reg_def) auto
qed

lemma inten_regs_eval:
  "set inten_regs = {0x110, 0x120, 0x130, 0x140, 0x150, 0x160, 0x170, 0x180}"
  by (simp add: inten_regs_def upt_sensors)


lemma read_trim_keeps:
  assumes "exynos8895_read_trim H m i data = Inr data'"
  shows "tzd data' = tzd data \<and> sensors data' = sensors data \<and>
         tmu_clear_irqs data' = tmu_clear_irqs data \<and>
         length (remote_sensors data') = length (remote_sensors data)"
  using assms
  by (auto simp add: exynos8895_read_trim_def Let_def split: if_splits)

lemma read_trim_returns:
  assumes "i \<noteq> 0 \<and> sensors data AND push_bit i 1 \<noteq> 0 \<longrightarrow> i < length (remote_sensors data)"
  shows "\<exists>data'. exynos8895_read_trim H m i data = Inr data'"
  using assms
  by (auto simp add: exynos8895_read_trim_def Let_def)

lemma read_trims_return:
  assumes "\<forall>i\<in>set is. i \<noteq> 0 \<and> sensors data AND push_bit i 1 \<noteq> 0 \<longrightarrow> i < length (remote_sensors data)"
  shows "\<exists>data'. fold_fault (exynos8895_read_trim H m) is data = Inr data' \<and>
           tzd data' = tzd data \<and> sensors data' = sensors data \<and>
           tmu_clear_irqs data' = tmu_clear_irqs data \<and>
           length (remote_sensors data') = length (remote_sensors data)"
  using assms
proof (induction "is" arbitrary: data)
  case Nil
  then show ?case by simp
next
  case (Cons i "is")
  from Cons.prems have "i \<noteq> 0 \<and> sensors data AND push_bit i 1 \<noteq> 0 \<longrightarrow> i < length (remote_sensors data)"
    by simp
  then obtain d1 where d1: "exynos8895_read_trim H m i data = Inr d1"
    using read_trim_returns by blast
  note k = read_trim_keeps[OF d1]
  have "\<forall>i\<in>set is. i \<noteq> 0 \<and> sensors d1 AND push_bit i 1 \<noteq> 0 \<longrightarrow> i < length (remote_sensors d1)"
    using Cons.prems k by simp
  from Cons.IH[OF this] obtain d2 where d2: "fold_fault (exynos8895_read_trim H m) is d1 = Inr d2"
      "tzd d2 = tzd d1" "sensors d2 = sensors d1" "tmu_clear_irqs d2 = tmu_clear_irqs d1"
      "length (remote_sensors d2) = length (remote_sensors d1)"
    by blast
  show ?case using d1 d2 k by simp
qed

lemma main_sensor_only: "i \<noteq> 0 \<Longrightarrow> (1 :: u32) AND push_bit i 1 = 0"
  by (auto simp add: bit_eq_iff bit_simps)

text \<open>
  The removal loop unlinks the first entry with the \<^verbatim>\<open>id\<close> looked for and
  faults, or finds none and ends.
\<close>

lemma remove_loop_match:
  "ident \<in> id_tmu ` set ahead \<Longrightarrow>
   exynos_tmu_remove_loop ident passed ahead =
     (Some PoisonedPointer,
      passed @ takeWhile (\<lambda>d. id_tmu d \<noteq> ident) ahead
             @ tl (dropWhile (\<lambda>d. id_tmu d \<noteq> ident) ahead))"
  by (induction ahead arbitrary: passed) auto

lemma remove_loop_no_match:
  "ident \<notin> id_tmu ` set ahead \<Longrightarrow>
   exynos_tmu_remove_loop ident passed ahead = (None, passed @ ahead)"
  by (induction ahead arbitrary: passed) auto

lemma unlink_first_length:
  "ident \<in> id_tmu ` set xs \<Longrightarrow>
   length (takeWhile (\<lambda>d. id_tmu d \<noteq> ident) xs @ tl (dropWhile (\<lambda>d. id_tmu d \<noteq> ident) xs)) + 1
     = length xs"
  by (induction xs) auto

lemma sdiv_mcelsius: "(t * MCELSIUS) sdiv 1000 = t"
proof -
  have "\<bar>t * 1000\<bar> div 1000 = \<bar>t\<bar>" by (simp add: abs_mult)
  then have "(t * 1000) sdiv 1000 = sgn (t * 1000) * \<bar>t\<bar>"
    by (simp add: signed_divide_int_def)
  also have "\<dots> = t" by (simp add: sgn_mult mult_sgn_abs)
  finally show ?thesis .
qed

text \<open>The notifier calls \<^verbatim>\<open>set_cur_temp\<close> once for each device that passes its test.\<close>

lemma notify_devs:
  "concat (map exynos_pm_notify_dev ds) =
   map (\<lambda>d. (the (cool_dev d), True, 0))
       (filter (\<lambda>d. id_tmu d \<noteq> 1 \<and> (\<exists>cdev. cool_dev d = Some cdev \<and> has_set_cur_temp cdev)) ds)"
  by (induction ds) (auto simp add: exynos_pm_notify_dev_def split: option.splits)

section \<open>Calibration round trip\<close>

text \<open>
  C1, as the code has it.  For a temperature within
  [\<open>EXYNOS_MIN_TEMP\<close>, \<open>EXYNOS_MAX_TEMP\<close>], \<^verbatim>\<open>temp_to_code\<close> returns a code \<open>c\<close>, and
  when \<open>c\<close> is representable as the \<^verbatim>\<open>u16\<close> argument of \<^verbatim>\<open>code_to_temp\<close>, the
  way back returns a temperature within one degree of the original; it
  returns the original itself in the one-point and the default-offset mode.
  In the two-point mode this needs two distinct trim points and at least one
  code unit per degree:
  \<open>\<bar>second_point_trim - first_point_trim\<bar> \<le> \<bar>temp_error2 - temp_error1\<bar>\<close>.
\<close>

theorem temp_code_round_trip:
  assumes lo: "EXYNOS_MIN_TEMP H \<le> uint temp" and hi: "uint temp \<le> EXYNOS_MAX_TEMP H"
    and two: "cal_type (pdata data) = TYPE_TWO_POINT_TRIMMING H \<longrightarrow>
        first_point_trim (pdata data) \<noteq> second_point_trim (pdata data) \<and>
        \<bar>uint (second_point_trim (pdata data)) - uint (first_point_trim (pdata data))\<bar>
          \<le> \<bar>uint (temp_error2 data) - uint (temp_error1 data)\<bar>"
  shows "\<exists>c. temp_to_code H data temp = Inr c \<and>
           (0 \<le> c \<and> c < 65536 \<longrightarrow>
             (\<exists>t. code_to_temp H data (word_of_int c) = Inr t \<and> \<bar>t - uint temp\<bar> \<le> 1 \<and>
                  (cal_type (pdata data) \<noteq> TYPE_TWO_POINT_TRIMMING H \<longrightarrow> t = uint temp)))"
proof (cases "cal_type (pdata data) = TYPE_TWO_POINT_TRIMMING H")
  case True
  define b where "b = uint (second_point_trim (pdata data)) - uint (first_point_trim (pdata data))"
  define a where "a = uint (temp_error2 data) - uint (temp_error1 data)"
  define x where "x = uint temp - uint (first_point_trim (pdata data))"
  from two True have b0: "b \<noteq> 0" and ab: "\<bar>b\<bar> \<le> \<bar>a\<bar>"
    unfolding a_def b_def by (auto simp: word_uint_eq_iff)
  then have a0: "a \<noteq> 0" by auto
  have near: "\<bar>(((x * a) sdiv b) * b) sdiv a - x\<bar> \<le> 1"
    by (rule scale_and_back[OF b0 ab])
  define c where "c = (x * a) sdiv b + uint (temp_error1 data)"
  have tc: "temp_to_code H data temp = Inr c"
    using True lo hi b0 by (simp add: temp_to_code_def Let_def a_def b_def x_def c_def)
  have rt: "\<exists>t. code_to_temp H data (word_of_int c) = Inr t \<and> \<bar>t - uint temp\<bar> \<le> 1"
    if r: "0 \<le> c" "c < 65536"
  proof -
    define y where "y = (((x * a) sdiv b) * b) sdiv a"
    have uc: "uint (word_of_int c :: u16) = c" using r by (rule uint_u16_of_int)
    have cy: "((c - uint (temp_error1 data)) * b) sdiv a = y" by (simp add: c_def y_def)
    have "code_to_temp H data (word_of_int c) =
       Inr (if y + uint (first_point_trim (pdata data)) > EXYNOS_MAX_TEMP H then EXYNOS_MAX_TEMP H
            else if y + uint (first_point_trim (pdata data)) < EXYNOS_MIN_TEMP H
              then EXYNOS_MIN_TEMP H
            else y + uint (first_point_trim (pdata data)))"
      using True a0 by (simp add: code_to_temp_def Let_def uc cy a_def[symmetric] b_def[symmetric])
    moreover have "\<bar>y - x\<bar> \<le> 1" using near by (simp add: y_def)
    ultimately show ?thesis using lo hi by (auto simp: x_def)
  qed
  show ?thesis using tc rt True by blast
next
  case False
  show ?thesis
  proof (cases "cal_type (pdata data) = TYPE_ONE_POINT_TRIMMING H")
    case True
    define c where "c = uint temp + uint (temp_error1 data) - uint (first_point_trim (pdata data))"
    have tc: "temp_to_code H data temp = Inr c"
      using False True lo hi by (simp add: temp_to_code_def Let_def c_def)
    have rt: "code_to_temp H data (word_of_int c) = Inr (uint temp)" if r: "0 \<le> c" "c < 65536"
    proof -
      have uc: "uint (word_of_int c :: u16) = c" using r by (rule uint_u16_of_int)
      have "c - uint (temp_error1 data) + uint (first_point_trim (pdata data)) = uint temp"
        by (simp add: c_def)
      then show ?thesis using False True lo hi by (simp add: code_to_temp_def Let_def uc)
    qed
    show ?thesis using tc rt False by auto
  next
    case other: False
    define c where "c = uint temp + uint (default_temp_offset (pdata data))"
    have tc: "temp_to_code H data temp = Inr c"
      using False other lo hi by (simp add: temp_to_code_def Let_def c_def)
    have rt: "code_to_temp H data (word_of_int c) = Inr (uint temp)" if r: "0 \<le> c" "c < 65536"
    proof -
      have uc: "uint (word_of_int c :: u16) = c" using r by (rule uint_u16_of_int)
      have "c - uint (default_temp_offset (pdata data)) = uint temp"
        by (simp add: c_def)
      then show ?thesis using False other lo hi by (simp add: code_to_temp_def Let_def uc)
    qed
    show ?thesis using tc rt False by auto
  qed
qed

theorem temp_code_round_trip_witness:
  "EXYNOS_MIN_TEMP sample_header \<le> uint (84 :: u8) \<and>
   uint (84 :: u8) \<le> EXYNOS_MAX_TEMP sample_header \<and>
   cal_type (pdata sample_data) = TYPE_TWO_POINT_TRIMMING sample_header \<and>
   first_point_trim (pdata sample_data) \<noteq> second_point_trim (pdata sample_data) \<and>
   temp_to_code sample_header sample_data 84 = Inr 168 \<and>
   (\<exists>t. code_to_temp sample_header sample_data (word_of_int 168) = Inr t \<and>
        \<bar>t - uint (84 :: u8)\<bar> \<le> 1)"
proof -
  have lo: "EXYNOS_MIN_TEMP sample_header \<le> uint (84 :: u8)"
    by (simp add: sample_header_def)
  have hi: "uint (84 :: u8) \<le> EXYNOS_MAX_TEMP sample_header"
    by (simp add: sample_header_def)
  have two: "cal_type (pdata sample_data) = TYPE_TWO_POINT_TRIMMING sample_header \<longrightarrow>
        first_point_trim (pdata sample_data) \<noteq> second_point_trim (pdata sample_data) \<and>
        \<bar>uint (second_point_trim (pdata sample_data)) - uint (first_point_trim (pdata sample_data))\<bar>
          \<le> \<bar>uint (temp_error2 sample_data) - uint (temp_error1 sample_data)\<bar>"
    by (simp add: sample_data_def sample_pdata_def)
  have c: "temp_to_code sample_header sample_data 84 = Inr 168"
    by (simp add: temp_to_code_def sample_header_def sample_data_def sample_pdata_def)
  have m: "cal_type (pdata sample_data) = TYPE_TWO_POINT_TRIMMING sample_header \<and>
      first_point_trim (pdata sample_data) \<noteq> second_point_trim (pdata sample_data)"
    by (simp add: sample_header_def sample_data_def sample_pdata_def)
  from temp_code_round_trip[OF lo hi two] c lo hi m show ?thesis by auto
qed

text \<open>
  The round trip is not within one degree for every two-point calibration with
  distinct fused codes: with one code unit for the sixty degrees between the
  trim points, 84 degrees become the code 50 and the code 50 becomes 25
  degrees.
\<close>

theorem temp_code_round_trip_counterexample:
  "EXYNOS_MIN_TEMP sample_header \<le> uint (84 :: u8) \<and>
   uint (84 :: u8) \<le> EXYNOS_MAX_TEMP sample_header \<and>
   cal_type (pdata (sample_data\<lparr>temp_error2 := 51\<rparr>)) = TYPE_TWO_POINT_TRIMMING sample_header \<and>
   temp_error2 (sample_data\<lparr>temp_error2 := 51\<rparr>) \<noteq> temp_error1 (sample_data\<lparr>temp_error2 := 51\<rparr>) \<and>
   temp_to_code sample_header (sample_data\<lparr>temp_error2 := 51\<rparr>) 84 = Inr 50 \<and>
   code_to_temp sample_header (sample_data\<lparr>temp_error2 := 51\<rparr>) (word_of_int 50) = Inr 25 \<and>
   \<not> \<bar>25 - uint (84 :: u8)\<bar> \<le> 1"
  by (simp add: temp_to_code_def code_to_temp_def sample_header_def sample_data_def
      sample_pdata_def)

section \<open>Multi-sensor aggregation\<close>

text \<open>
  C2, evaluated on the code.  With the sensor mask \<open>0b00000111\<close> and the raw
  codes 10, 20 and 30 of the sensors 0, 1 and 2, \<^verbatim>\<open>exynos8895_tmu_read\<close> returns
  20 in the mode \<^verbatim>\<open>AVG\<close> and 30 in the mode \<^verbatim>\<open>MAX\<close>, but 0 in the mode \<^verbatim>\<open>MIN\<close>:
  the minimum is folded from the initial \<^verbatim>\<open>result = 0\<close>.
\<close>

theorem tmu_read_three_sensors:
  "exynos8895_tmu_read (sample_data\<lparr>sensors := 7, sensing_mode := AVG\<rparr>) sample_bank = Inr 20 \<and>
   exynos8895_tmu_read (sample_data\<lparr>sensors := 7, sensing_mode := MAX_sensing\<rparr>) sample_bank = Inr 30 \<and>
   exynos8895_tmu_read (sample_data\<lparr>sensors := 7, sensing_mode := MIN_sensing\<rparr>) sample_bank = Inr 0"
  by (simp add: exynos8895_tmu_read_def exynos8895_tmu_read_sensor_def sample_data_def
      sample_bank_def readl_def upt_sensors)

text \<open>
  C3, as the code has it.  With an empty sensor mask, \<^verbatim>\<open>exynos8895_tmu_read\<close>
  reports no error: in every mode other than \<^verbatim>\<open>AVG\<close> it divides nothing and
  returns the code 0.
\<close>

theorem tmu_read_no_sensors:
  assumes "sensors data = 0" and "sensing_mode data \<noteq> AVG"
  shows "exynos8895_tmu_read data m = Inr 0"
  using assms
  by (cases "sensing_mode data")
     (simp_all add: exynos8895_tmu_read_def exynos8895_tmu_read_sensor_def upt_sensors)

theorem tmu_read_no_sensors_witness:
  "sensors (sample_data\<lparr>sensors := 0, sensing_mode := MIN_sensing\<rparr>) = 0 \<and>
   sensing_mode (sample_data\<lparr>sensors := 0, sensing_mode := MIN_sensing\<rparr>) \<noteq> AVG \<and>
   exynos8895_tmu_read (sample_data\<lparr>sensors := 0, sensing_mode := MIN_sensing\<rparr>) sample_bank = Inr 0"
proof -
  have s: "sensors (sample_data\<lparr>sensors := 0, sensing_mode := MIN_sensing\<rparr>) = 0" by simp
  have p: "sensing_mode (sample_data\<lparr>sensors := 0, sensing_mode := MIN_sensing\<rparr>) \<noteq> AVG" by simp
  from tmu_read_no_sensors[OF s p] s p show ?thesis by blast
qed

text \<open>
  With an empty sensor mask the read divides by a zero count in the mode
  \<^verbatim>\<open>AVG\<close>, and returns normally in the mode \<^verbatim>\<open>MAX\<close>.
\<close>

theorem tmu_read_no_sensors_counterexample:
  "exynos8895_tmu_read (sample_data\<lparr>sensors := 0, sensing_mode := AVG\<rparr>) sample_bank
     = Inl DivisionByZero \<and>
   exynos8895_tmu_read (sample_data\<lparr>sensors := 0, sensing_mode := MAX_sensing\<rparr>) sample_bank
     = Inr 0"
  by (simp add: exynos8895_tmu_read_def exynos8895_tmu_read_sensor_def upt_sensors)

section \<open>Threshold placement\<close>

text \<open>
  C4, as the code has it.  Trip 7 is placed at register offset 0 and bit offset
  1, trip 6 at register offset 0 and bit offset 0, trip 5 at register offset 4
  and bit offset 1: the odd trip of a pair takes the high half of the
  register.
\<close>

theorem threshold_placement:
  "reg_off 7 = 0 \<and> bit_off 7 = 1 \<and> reg_off 6 = 0 \<and> bit_off 6 = 0 \<and>
   reg_off 5 = 4 \<and> bit_off 5 = 1"
  by (simp add: reg_off_def bit_off_def signed_divide_int_def signed_modulo_int_def)

text \<open>The bit offsets are not 0 for trip 7, 1 for trip 6 and 0 for trip 5.\<close>

theorem threshold_placement_counterexample:
  "\<not> (reg_off 7 = 0 \<and> bit_off 7 = 0 \<and> reg_off 6 = 0 \<and> bit_off 6 = 1 \<and>
      reg_off 5 = 4 \<and> bit_off 5 = 0)"
  by (simp add: reg_off_def bit_off_def signed_divide_int_def signed_modulo_int_def)

section \<open>Trip report\<close>

text \<open>
  C5.  For a device with a thermal zone, the work item
  \<^verbatim>\<open>exynos_tmu_work\<close> emits exactly one change event, the one of
  \<^verbatim>\<open>exynos_report_trigger\<close>.  Its index \<open>r\<close> is the least trip index, scanning
  from 0, whose trip temperature is strictly above the zone's temperature
  after the framework update, and the number of trips when there is none: no
  trip before \<open>r\<close> is above the temperature, and trip \<open>r\<close>, if it exists, is.
\<close>

theorem trip_report_index:
  assumes tz0: "tzd p = Some tz0" and tz: "tz = thermal_zone_device_update tz0"
  shows "\<exists>r p' m'. exynos_tmu_work thermal_zone_device_update p m = (p', m', [KOBJ_CHANGE r]) \<and>
           exynos_report_trigger thermal_zone_device_update p = (p', [KOBJ_CHANGE r]) \<and>
           r \<le> of_thermal_get_ntrips tz \<and>
           (\<forall>k<r. get_trip_temp tz k \<le> last_temperature tz) \<and>
           (r < of_thermal_get_ntrips tz \<longrightarrow> last_temperature tz < get_trip_temp tz r)"
  using find_trip_level_spec[of 0 tz] tz0 tz
  by (simp add: exynos_tmu_work_def exynos_report_trigger_def Let_def)

theorem trip_report_index_witness:
  "tzd sample_data = Some sample_zone \<and>
   snd (snd (exynos_tmu_work (\<lambda>tz. tz) sample_data sample_bank)) = [KOBJ_CHANGE 2]"
proof -
  have tz0: "tzd sample_data = Some sample_zone" by (simp add: sample_data_def)
  have tz: "sample_zone = (\<lambda>tz. tz) sample_zone" by simp
  from trip_report_index[where p=sample_data and ?tz0.0=sample_zone and tz=sample_zone
      and thermal_zone_device_update="\<lambda>tz. tz" and m=sample_bank, OF tz0 tz]
  obtain r p' m' where w: "exynos_tmu_work (\<lambda>tz. tz) sample_data sample_bank = (p', m', [KOBJ_CHANGE r])"
    and le: "r \<le> of_thermal_get_ntrips sample_zone"
    and above: "\<forall>k<r. get_trip_temp sample_zone k \<le> last_temperature sample_zone"
    and below: "r < of_thermal_get_ntrips sample_zone \<longrightarrow>
                  last_temperature sample_zone < get_trip_temp sample_zone r"
    by blast
  have n: "of_thermal_get_ntrips sample_zone = 3"
    by (simp add: of_thermal_get_ntrips_def sample_zone_def)
  have t: "get_trip_temp sample_zone 0 = 70000" "get_trip_temp sample_zone 1 = 85000"
    "get_trip_temp sample_zone 2 = 100000" "last_temperature sample_zone = 90000"
    by (simp_all add: get_trip_temp_def sample_zone_def)
  from le n have "r = 0 \<or> r = 1 \<or> r = 2 \<or> r = 3" by arith
  moreover have "r \<noteq> 0"
  proof
    assume "r = 0"
    with below n t show False by simp
  qed
  moreover have "r \<noteq> 1"
  proof
    assume "r = 1"
    with below n t show False by simp
  qed
  moreover have "r \<noteq> 3"
  proof
    assume "r = 3"
    with above have "get_trip_temp sample_zone 2 \<le> last_temperature sample_zone" by simp
    with t show False by simp
  qed
  ultimately have "r = 2" by blast
  with w tz0 show ?thesis by simp
qed

section \<open>CPU hotplug throttling\<close>

text \<open>
  C6, as the code has it.  The temperature passed to
  \<^verbatim>\<open>exynos_throttle_cpu_hotplug\<close> is in millidegrees and is divided by 1000
  (truncating) before it is compared with the thresholds, which are in
  degrees.  For a device with a cooling device the call returns 0, and: from
  the normal state the flag is set exactly when the temperature in degrees is
  at least \<open>hotplug_out_threshold\<close>, with a request for \<open>NR_HOTPLUG_CPUS\<close>
  cores; from the throttled state it is cleared exactly when the temperature
  in degrees is strictly below \<open>hotplug_in_threshold\<close>, with a request for
  \<open>NR_CPUS\<close> cores; when the flag does not change, nothing changes.
\<close>

theorem hotplug_hysteresis:
  assumes cd: "cool_dev data = Some cdev"
  shows "\<exists>data' g'. exynos_throttle_cpu_hotplug H data temp g = Inr (0, data', g') \<and>
    (\<not> is_cpu_hotplugged_out g \<longrightarrow>
       (is_cpu_hotplugged_out g' \<longleftrightarrow> hotplug_out_threshold data \<le> temp sdiv MCELSIUS) \<and>
       (is_cpu_hotplugged_out g' \<longrightarrow>
          thermal_cpu_hotplug_request g' = thermal_cpu_hotplug_request g @ [NR_HOTPLUG_CPUS H])) \<and>
    (is_cpu_hotplugged_out g \<longrightarrow>
       (\<not> is_cpu_hotplugged_out g' \<longleftrightarrow> temp sdiv MCELSIUS < hotplug_in_threshold data) \<and>
       (\<not> is_cpu_hotplugged_out g' \<longrightarrow>
          thermal_cpu_hotplug_request g' = thermal_cpu_hotplug_request g @ [NR_CPUS H])) \<and>
    (is_cpu_hotplugged_out g' = is_cpu_hotplugged_out g \<longrightarrow> g' = g \<and> data' = data)"
  using cd by (auto simp add: exynos_throttle_cpu_hotplug_def Let_def pm_qos_update_request_def)

theorem hotplug_hysteresis_witness:
  "cool_dev sample_data = Some sample_cdev \<and>
   (\<exists>data' g'. exynos_throttle_cpu_hotplug sample_header sample_data 86000 sample_global
        = Inr (0, data', g') \<and>
      is_cpu_hotplugged_out g' \<and> thermal_cpu_hotplug_request g' = [4])"
proof -
  have cd: "cool_dev sample_data = Some sample_cdev" by (simp add: sample_data_def)
  have f: "\<not> is_cpu_hotplugged_out sample_global" "thermal_cpu_hotplug_request sample_global = []"
    "hotplug_out_threshold sample_data \<le> 86000 sdiv MCELSIUS" "NR_HOTPLUG_CPUS sample_header = 4"
    by (simp_all add: sample_global_def sample_data_def sample_header_def)
  from hotplug_hysteresis[OF cd, of sample_header 86000 sample_global] f cd
  show ?thesis by auto
qed

text \<open>
  The millidegree reading is not compared with the threshold as it is: with
  thresholds of 70000 and 85000, a reading of 86000 in the normal state leaves
  the state normal and requests nothing.
\<close>

theorem hotplug_hysteresis_counterexample:
  "\<not> is_cpu_hotplugged_out sample_global \<and>
   hotplug_out_threshold (sample_data\<lparr>hotplug_in_threshold := 70000, hotplug_out_threshold := 85000\<rparr>)
     \<le> 86000 \<and>
   exynos_throttle_cpu_hotplug sample_header
     (sample_data\<lparr>hotplug_in_threshold := 70000, hotplug_out_threshold := 85000\<rparr>) 86000 sample_global
   = Inr (0, sample_data\<lparr>hotplug_in_threshold := 70000, hotplug_out_threshold := 85000\<rparr>,
          sample_global)"
  by (simp add: exynos_throttle_cpu_hotplug_def sample_data_def sample_global_def)

text \<open>
  C9.  The throttle flag is the file-scope \<^verbatim>\<open>is_cpu_hotplugged_out\<close>, shared by
  all devices: when the temperature of one device sets it, the next call for
  any other device finds it set, so that call consults the other device's
  \<open>hotplug_in_threshold\<close> only: it keeps the state as the first device left
  it, or clears the flag and requests \<open>NR_CPUS\<close> cores.
\<close>

theorem hotplug_flag_shared:
  assumes c1: "cool_dev d1 = Some cdev1" and c2: "cool_dev d2 = Some cdev2"
    and normal: "\<not> is_cpu_hotplugged_out g"
    and hot: "hotplug_out_threshold d1 \<le> t1 sdiv MCELSIUS"
  shows "\<exists>d1' g1 d2' g2.
     exynos_throttle_cpu_hotplug H d1 t1 g = Inr (0, d1', g1) \<and> is_cpu_hotplugged_out g1 \<and>
     exynos_throttle_cpu_hotplug H d2 t2 g1 = Inr (0, d2', g2) \<and>
     (is_cpu_hotplugged_out g2 \<longleftrightarrow> hotplug_in_threshold d2 \<le> t2 sdiv MCELSIUS) \<and>
     (is_cpu_hotplugged_out g2 \<longrightarrow> g2 = g1) \<and>
     (\<not> is_cpu_hotplugged_out g2 \<longrightarrow>
        thermal_cpu_hotplug_request g2 = thermal_cpu_hotplug_request g1 @ [NR_CPUS H])"
  using c1 c2 normal hot
  by (auto simp add: exynos_throttle_cpu_hotplug_def Let_def pm_qos_update_request_def)


theorem hotplug_flag_shared_witness:
  "cool_dev sample_data = Some sample_cdev \<and>
   cool_dev (sample_data\<lparr>id_tmu := 1, hotplug_in_threshold := 60, hotplug_out_threshold := 95\<rparr>)
     = Some sample_cdev \<and>
   \<not> is_cpu_hotplugged_out sample_global \<and>
   hotplug_out_threshold sample_data \<le> 86000 sdiv MCELSIUS \<and>
   (\<exists>d1' g1 d2' g2.
     exynos_throttle_cpu_hotplug sample_header sample_data 86000 sample_global = Inr (0, d1', g1) \<and>
     exynos_throttle_cpu_hotplug sample_header
       (sample_data\<lparr>id_tmu := 1, hotplug_in_threshold := 60, hotplug_out_threshold := 95\<rparr>)
       65000 g1 = Inr (0, d2', g2) \<and>
     is_cpu_hotplugged_out g2 \<and> g2 = g1)"
proof -
  let ?d2 = "sample_data\<lparr>id_tmu := 1, hotplug_in_threshold := 60, hotplug_out_threshold := 95\<rparr>"
  have c1: "cool_dev sample_data = Some sample_cdev" by (simp add: sample_data_def)
  have c2: "cool_dev ?d2 = Some sample_cdev" by (simp add: sample_data_def)
  have n: "\<not> is_cpu_hotplugged_out sample_global" by (simp add: sample_global_def)
  have h: "hotplug_out_threshold sample_data \<le> 86000 sdiv MCELSIUS" by (simp add: sample_data_def)
  have i: "hotplug_in_threshold ?d2 \<le> 65000 sdiv MCELSIUS" by simp
  from hotplug_flag_shared[OF c1 c2 n h, of sample_header 65000] i c1 c2 n h
  show ?thesis by blast
qed

section \<open>The power-allocator governor\<close>

text \<open>
  C7, as the code has it.  On a device with the Exynos8895 methods whose zone
  is governed by \<^verbatim>\<open>power_allocator\<close> (and whose remote-sensor table covers its
  active remote sensors), \<^verbatim>\<open>exynos_tmu_initialize\<close> returns 0, writes to no
  rising or falling threshold register and leaves their contents as they were;
  and \<^verbatim>\<open>exynos_tmu_control\<close>, switching the unit on, returns, writes to no
  interrupt-enable register and leaves their contents as they were.
\<close>

theorem power_allocator_skips:
  assumes tz: "tzd data = Some tz" and gov: "governor_name tz = ''power_allocator''"
    and alloc: "\<forall>i<TOTAL_SENSORS. i \<noteq> 0 \<and> sensors data AND push_bit i 1 \<noteq> 0
                  \<longrightarrow> i < length (remote_sensors data)"
    and v: "tmu_initialize data = SOC_ARCH_EXYNOS8895" "tmu_control data = SOC_ARCH_EXYNOS8895"
  shows "(\<exists>data' m'. exynos_tmu_initialize H data m = Inr (0, data', m') \<and>
            set (written_since m m') \<inter> set threshold_regs = {} \<and>
            (\<forall>a\<in>set threshold_regs. regs m' a = regs m a)) \<and>
         (\<exists>m'. exynos_tmu_control data True m = Inr m' \<and>
            set (written_since m m') \<inter> set inten_regs = {} \<and>
            (\<forall>a\<in>set inten_regs. regs m' a = regs m a))"
proof
  have "\<forall>i\<in>set [0..<TOTAL_SENSORS]. i \<noteq> 0 \<and> sensors data AND push_bit i 1 \<noteq> 0
                  \<longrightarrow> i < length (remote_sensors data)"
    using alloc by simp
  from read_trims_return[OF this, of H m] obtain d1 where
    d1: "fold_fault (exynos8895_read_trim H m) [0..<TOTAL_SENSORS] data = Inr d1"
        "tzd d1 = tzd data"
    by blast
  obtain ws where ws: "writes (call_tmu_clear_irqs d1 m) = writes m @ ws"
      "fst ` set ws \<subseteq> intpend_reg ` {0..<TOTAL_SENSORS}"
      "\<forall>a. a \<notin> intpend_reg ` {0..<TOTAL_SENSORS} \<longrightarrow> regs (call_tmu_clear_irqs d1 m) a = regs m a"
    using call_clear_irqs_effect[of d1 m] by blast
  have init: "exynos_tmu_initialize H data m = Inr (0, d1, call_tmu_clear_irqs d1 m)"
    using d1 tz gov v by (simp add: exynos_tmu_initialize_def exynos8895_tmu_initialize_def)
  have disj: "intpend_reg ` {0..<TOTAL_SENSORS} \<inter> set threshold_regs = {}"
    unfolding intpend_regs_eval threshold_regs_eval by simp
  have w: "set (written_since m (call_tmu_clear_irqs d1 m)) \<inter> set threshold_regs = {}"
    using ws(2) disj unfolding written_since_append[OF ws(1)] by auto
  have r: "\<forall>a\<in>set threshold_regs. regs (call_tmu_clear_irqs d1 m) a = regs m a"
    using ws(3) disj by auto
  show "\<exists>data' m'. exynos_tmu_initialize H data m = Inr (0, data', m') \<and>
            set (written_since m m') \<inter> set threshold_regs = {} \<and>
            (\<forall>a\<in>set threshold_regs. regs m' a = regs m a)"
    using init w r by blast
next
  obtain m' where m': "exynos_tmu_control data True m = Inr m'"
     and wr: "written_since m m' = [EXYNOS_TMU_REG_CONTROL, EXYNOS_TMU_REG_CONTROL, EXYNOS_TMU_REG_AVG_CON]"
     and rg: "\<forall>a. a \<noteq> EXYNOS_TMU_REG_CONTROL \<and> a \<noteq> EXYNOS_TMU_REG_AVG_CON \<longrightarrow> regs m' a = regs m a"
    using tz gov v
    by (simp add: exynos_tmu_control_def exynos8895_tmu_control_def Let_def written_since_def
        writel_writes writel_regs)
  have "set (written_since m m') \<inter> set inten_regs = {}"
    unfolding wr inten_regs_eval by simp
  moreover have "\<forall>a\<in>set inten_regs. regs m' a = regs m a"
    using rg unfolding inten_regs_eval by simp
  ultimately show "\<exists>m'. exynos_tmu_control data True m = Inr m' \<and>
            set (written_since m m') \<inter> set inten_regs = {} \<and>
            (\<forall>a\<in>set inten_regs. regs m' a = regs m a)"
    using m' by blast
qed


theorem power_allocator_skips_witness:
  "tzd sample_data = Some sample_zone \<and> governor_name sample_zone = ''power_allocator'' \<and>
   sensors sample_data = 1 \<and> remote_sensors sample_data = [] \<and>
   tmu_initialize sample_data = SOC_ARCH_EXYNOS8895 \<and>
   tmu_control sample_data = SOC_ARCH_EXYNOS8895 \<and>
   (\<exists>data' m'. exynos_tmu_initialize sample_header sample_data sample_bank = Inr (0, data', m') \<and>
       set (written_since sample_bank m') \<inter> set threshold_regs = {} \<and>
       (\<forall>a\<in>set threshold_regs. regs m' a = regs sample_bank a)) \<and>
   (\<exists>m'. exynos_tmu_control sample_data True sample_bank = Inr m' \<and>
       set (written_since sample_bank m') \<inter> set inten_regs = {} \<and>
       (\<forall>a\<in>set inten_regs. regs m' a = regs sample_bank a))"
proof -
  have tz: "tzd sample_data = Some sample_zone" by (simp add: sample_data_def)
  have gov: "governor_name sample_zone = ''power_allocator''" by (simp add: sample_zone_def)
  have alloc: "\<forall>i<TOTAL_SENSORS. i \<noteq> 0 \<and> sensors sample_data AND push_bit i 1 \<noteq> 0
        \<longrightarrow> i < length (remote_sensors sample_data)"
  proof (intro allI impI)
    fix i :: nat
    assume "i \<noteq> 0 \<and> sensors sample_data AND push_bit i 1 \<noteq> 0"
    moreover have "sensors sample_data = 1" by (simp add: sample_data_def)
    ultimately have "i \<noteq> 0" "(1 :: u32) AND push_bit i 1 \<noteq> 0" by simp_all
    with main_sensor_only[of i] show "i < length (remote_sensors sample_data)" by simp
  qed
  have main: "sensors sample_data = 1" "remote_sensors sample_data = []"
    by (simp_all add: sample_data_def)
  have v: "tmu_initialize sample_data = SOC_ARCH_EXYNOS8895"
    "tmu_control sample_data = SOC_ARCH_EXYNOS8895"
    by (simp_all add: sample_data_def)
  from power_allocator_skips[OF tz gov alloc v, of sample_header sample_bank] tz gov main v
  show ?thesis by blast
qed

text \<open>
  On a device with the Exynos8890 methods the governor is not consulted: under
  \<^verbatim>\<open>power_allocator\<close> the initialization writes the threshold registers of
  the three trips, and the control call writes the interrupt-enable register.
\<close>

theorem power_allocator_skips_counterexample:
  "tzd (sample_data\<lparr>tmu_initialize := SOC_ARCH_EXYNOS8890, tmu_control := SOC_ARCH_EXYNOS8890\<rparr>)
     = Some sample_zone \<and>
   governor_name sample_zone = ''power_allocator'' \<and>
   initialize_writes sample_bank
     (exynos_tmu_initialize sample_header
        (sample_data\<lparr>tmu_initialize := SOC_ARCH_EXYNOS8890, tmu_control := SOC_ARCH_EXYNOS8890\<rparr>)
        sample_bank)
     = Inr (0, [0x58, 0x68, 0x5c, 0x6c, 0x5c, 0x6c, 0x118]) \<and>
   control_writes sample_bank
     (exynos_tmu_control
        (sample_data\<lparr>tmu_initialize := SOC_ARCH_EXYNOS8890, tmu_control := SOC_ARCH_EXYNOS8890\<rparr>)
        True sample_bank)
     = Inr [0x110, 0x20] \<and>
   0x58 \<in> set threshold_regs \<and> 0x110 \<in> set inten_regs"
proof -
  let ?d = "sample_data\<lparr>tmu_initialize := SOC_ARCH_EXYNOS8890, tmu_control := SOC_ARCH_EXYNOS8890\<rparr>"
  have z: "tzd ?d = Some sample_zone" "governor_name sample_zone = ''power_allocator''"
    by (simp_all add: sample_data_def sample_zone_def)
  have i: "initialize_writes sample_bank (exynos_tmu_initialize sample_header ?d sample_bank)
     = Inr (0, [0x58, 0x68, 0x5c, 0x6c, 0x5c, 0x6c, 0x118])"
    by code_simp
  have c: "control_writes sample_bank (exynos_tmu_control ?d True sample_bank) = Inr [0x110, 0x20]"
    by code_simp
  have t: "0x58 \<in> set threshold_regs" unfolding threshold_regs_eval by simp
  have e: "0x110 \<in> set inten_regs" unfolding inten_regs_eval by simp
  show ?thesis using z i c t e by blast
qed

section \<open>The suspend notifier registration\<close>

text \<open>
  C8.  When the notifier is registered exactly if the registry is non-empty,
  this stays so in the state that a probe leaves and in the state that the
  removal of a device with an entry in the registry leaves.  A failing probe
  changes nothing; a succeeding probe appends the device and registers the
  notifier exactly when the registry was empty.  The removal unregisters the
  notifier exactly when the registry had one entry, which is when it leaves the
  registry empty, and unlinks the first entry with the device's \<^verbatim>\<open>id\<close>; with
  more than one entry the notifier stays registered and the registry stays
  non-empty.  The call of the removal itself ends in the fault of its loop.
\<close>

theorem pm_notifier_registry:
  assumes inv: "registry_ok g"
  shows "(ret \<noteq> 0 \<longrightarrow> exynos_tmu_probe ret data g = (ret, g)) \<and>
         registry_ok (snd (exynos_tmu_probe 0 data g)) \<and>
         fst (exynos_tmu_probe 0 data g) = 0 \<and>
         dtm_dev_list (snd (exynos_tmu_probe 0 data g)) = dtm_dev_list g @ [data] \<and>
         pm_notifier_registered (snd (exynos_tmu_probe 0 data g)) =
           pm_notifier_registered g + (if dtm_dev_list g = [] then 1 else 0) \<and>
         (id_tmu data \<in> id_tmu ` set (dtm_dev_list g) \<longrightarrow>
            registry_ok (snd (exynos_tmu_remove data g)) \<and>
            fst (exynos_tmu_remove data g) = Inl PoisonedPointer \<and>
            dtm_dev_list (snd (exynos_tmu_remove data g)) =
              takeWhile (\<lambda>d. id_tmu d \<noteq> id_tmu data) (dtm_dev_list g)
                @ tl (dropWhile (\<lambda>d. id_tmu d \<noteq> id_tmu data) (dtm_dev_list g)) \<and>
            length (dtm_dev_list (snd (exynos_tmu_remove data g))) + 1 = length (dtm_dev_list g) \<and>
            pm_notifier_registered (snd (exynos_tmu_remove data g)) =
              pm_notifier_registered g - (if length (dtm_dev_list g) = 1 then 1 else 0) \<and>
            (dtm_dev_list (snd (exynos_tmu_remove data g)) = [] \<longleftrightarrow>
               length (dtm_dev_list g) = 1) \<and>
            (1 < length (dtm_dev_list g) \<longrightarrow>
               pm_notifier_registered (snd (exynos_tmu_remove data g)) = 1))"
proof (intro conjI impI)
  show "exynos_tmu_probe ret data g = (ret, g)" if "ret \<noteq> 0"
    using that by (simp add: exynos_tmu_probe_def)
  show "registry_ok (snd (exynos_tmu_probe 0 data g))"
    using inv
    by (auto simp add: registry_ok_def exynos_tmu_probe_def Let_def list_add_tail_def
        list_is_singular_def register_pm_notifier_def)
  show "fst (exynos_tmu_probe 0 data g) = 0"
    by (simp add: exynos_tmu_probe_def Let_def)
  show "dtm_dev_list (snd (exynos_tmu_probe 0 data g)) = dtm_dev_list g @ [data]"
    by (simp add: exynos_tmu_probe_def Let_def list_add_tail_def
        list_is_singular_def register_pm_notifier_def)
  show "pm_notifier_registered (snd (exynos_tmu_probe 0 data g)) =
          pm_notifier_registered g + (if dtm_dev_list g = [] then 1 else 0)"
    by (simp add: exynos_tmu_probe_def Let_def list_add_tail_def
        list_is_singular_def register_pm_notifier_def)
next
  assume known: "id_tmu data \<in> id_tmu ` set (dtm_dev_list g)"
  let ?rest = "takeWhile (\<lambda>d. id_tmu d \<noteq> id_tmu data) (dtm_dev_list g)
                @ tl (dropWhile (\<lambda>d. id_tmu d \<noteq> id_tmu data) (dtm_dev_list g))"
  have loop: "exynos_tmu_remove_loop (id_tmu data) [] (dtm_dev_list g)
      = (Some PoisonedPointer, ?rest)"
    using remove_loop_match[OF known, of "[]"] by simp
  show out: "fst (exynos_tmu_remove data g) = Inl PoisonedPointer"
    using loop by (simp add: exynos_tmu_remove_def Let_def unregister_pm_notifier_def)
  show dl: "dtm_dev_list (snd (exynos_tmu_remove data g)) = ?rest"
    using loop by (simp add: exynos_tmu_remove_def Let_def unregister_pm_notifier_def)
  show cnt: "pm_notifier_registered (snd (exynos_tmu_remove data g)) =
          pm_notifier_registered g - (if length (dtm_dev_list g) = 1 then 1 else 0)"
    using loop
    by (simp add: exynos_tmu_remove_def Let_def unregister_pm_notifier_def list_is_singular_def)
  have len: "length ?rest + 1 = length (dtm_dev_list g)"
    using known by (rule unlink_first_length)
  show "length (dtm_dev_list (snd (exynos_tmu_remove data g))) + 1 = length (dtm_dev_list g)"
    unfolding dl by (rule len)
  have one: "pm_notifier_registered g = 1"
    using inv known by (auto simp add: registry_ok_def)
  have empty: "?rest = [] \<longleftrightarrow> length (dtm_dev_list g) = 1"
    using len by (metis One_nat_def add_cancel_left_left length_0_conv)
  show "dtm_dev_list (snd (exynos_tmu_remove data g)) = [] \<longleftrightarrow> length (dtm_dev_list g) = 1"
    unfolding dl by (rule empty)
  show "registry_ok (snd (exynos_tmu_remove data g))"
    unfolding registry_ok_def dl cnt using empty one by simp
  show "pm_notifier_registered (snd (exynos_tmu_remove data g)) = 1"
    if "1 < length (dtm_dev_list g)"
    using that one cnt by simp
qed

theorem pm_notifier_registry_witness:
  "registry_ok sample_global \<and>
   registry_ok (snd (exynos_tmu_probe 0 sample_data sample_global)) \<and>
   pm_notifier_registered (snd (exynos_tmu_probe 0 sample_data sample_global)) = 1 \<and>
   id_tmu sample_data
     \<in> id_tmu ` set (dtm_dev_list (snd (exynos_tmu_probe 0 sample_data sample_global))) \<and>
   registry_ok
     (snd (exynos_tmu_remove sample_data (snd (exynos_tmu_probe 0 sample_data sample_global)))) \<and>
   fst (exynos_tmu_remove sample_data (snd (exynos_tmu_probe 0 sample_data sample_global)))
     = Inl PoisonedPointer \<and>
   dtm_dev_list
     (snd (exynos_tmu_remove sample_data (snd (exynos_tmu_probe 0 sample_data sample_global)))) = [] \<and>
   pm_notifier_registered
     (snd (exynos_tmu_remove sample_data (snd (exynos_tmu_probe 0 sample_data sample_global)))) = 0"
proof -
  let ?g1 = "snd (exynos_tmu_probe 0 sample_data sample_global)"
  have ok0: "registry_ok sample_global" by (simp add: registry_ok_def sample_global_def)
  have e: "dtm_dev_list sample_global = []" "pm_notifier_registered sample_global = 0"
    by (simp_all add: sample_global_def)
  from pm_notifier_registry[OF ok0, of 0 sample_data] e
  have 1: "registry_ok ?g1" "dtm_dev_list ?g1 = [sample_data]" "pm_notifier_registered ?g1 = 1"
    by simp_all
  have known: "id_tmu sample_data \<in> id_tmu ` set (dtm_dev_list ?g1)" using 1(2) by simp
  from pm_notifier_registry[OF 1(1), of 0 sample_data] known 1(2,3)
  have 2: "registry_ok (snd (exynos_tmu_remove sample_data ?g1))"
    "fst (exynos_tmu_remove sample_data ?g1) = Inl PoisonedPointer"
    "dtm_dev_list (snd (exynos_tmu_remove sample_data ?g1)) = []"
    "pm_notifier_registered (snd (exynos_tmu_remove sample_data ?g1)) = 0"
    by simp_all
  show ?thesis using ok0 1 known 2 by blast
qed

text \<open>
  Two devices: one registration after the first probe, still one after the
  second probe and after the first removal, none after the second removal.
  The same holds when the two devices have the same \<^verbatim>\<open>id\<close>: the first removal
  unlinks one entry only.
\<close>

lemma two_devices_one_registration:
  "pm_notifier_registered (snd (exynos_tmu_probe 0 sample_data sample_global)) = 1 \<and>
   pm_notifier_registered (snd (exynos_tmu_probe 0 (sample_data\<lparr>id_tmu := 2\<rparr>)
      (snd (exynos_tmu_probe 0 sample_data sample_global)))) = 1 \<and>
   pm_notifier_registered (snd (exynos_tmu_remove sample_data
      (snd (exynos_tmu_probe 0 (sample_data\<lparr>id_tmu := 2\<rparr>)
        (snd (exynos_tmu_probe 0 sample_data sample_global)))))) = 1 \<and>
   pm_notifier_registered (snd (exynos_tmu_remove (sample_data\<lparr>id_tmu := 2\<rparr>)
      (snd (exynos_tmu_remove sample_data
        (snd (exynos_tmu_probe 0 (sample_data\<lparr>id_tmu := 2\<rparr>)
          (snd (exynos_tmu_probe 0 sample_data sample_global)))))))) = 0"
  by code_simp

lemma two_devices_same_id:
  "dtm_dev_list (snd (exynos_tmu_remove sample_data
      (snd (exynos_tmu_probe 0 (sample_data\<lparr>hotplug_enable := False\<rparr>)
        (snd (exynos_tmu_probe 0 sample_data sample_global))))))
     = [sample_data\<lparr>hotplug_enable := False\<rparr>] \<and>
   pm_notifier_registered (snd (exynos_tmu_remove sample_data
      (snd (exynos_tmu_probe 0 (sample_data\<lparr>hotplug_enable := False\<rparr>)
        (snd (exynos_tmu_probe 0 sample_data sample_global)))))) = 1"
  by code_simp

section \<open>The cooling-device temperature push\<close>

text \<open>
  C10.  A run of \<^verbatim>\<open>exynos_get_temp\<close> for a device with \<^verbatim>\<open>id\<close> 1 makes no call of
  \<^verbatim>\<open>set_cur_temp\<close>.  For a device with another \<^verbatim>\<open>id\<close> and a cooling device that
  provides \<^verbatim>\<open>set_cur_temp\<close>, every run that reads a temperature returns 0,
  stores the temperature in millidegrees and makes exactly one call, with the
  \<^verbatim>\<open>suspended\<close> flag and the temperature in degrees.  The notifier, on
  \<^verbatim>\<open>PM_SUSPEND_PREPARE\<close>, makes exactly one call, with \<^verbatim>\<open>true\<close> and 0, for each
  registered device whose \<^verbatim>\<open>id\<close> is not 1 and whose cooling device provides
  \<^verbatim>\<open>set_cur_temp\<close>, and no other call; on other events it makes none.
\<close>

theorem set_cur_temp_skips_id_1:
  "(id_tmu data = 1 \<longrightarrow> set_cur_temp_calls (exynos_get_temp H g (Some data) m) = []) \<and>
   (id_tmu data \<noteq> 1 \<and> cool_dev data = Some cdev \<and> has_set_cur_temp cdev \<and>
    tmu_read data = Some rd \<and> call_tmu_read rd data m = Inr code \<and>
    code_to_temp H data (word_of_int code) = Inr t \<longrightarrow>
      exynos_get_temp H g (Some data) m = Inr (0, Some (t * MCELSIUS), [(cdev, suspended g, t)])) \<and>
   snd (exynos_pm_notifier PM_SUSPEND_PREPARE g) =
     map (\<lambda>d. (the (cool_dev d), True, 0))
       (filter (\<lambda>d. id_tmu d \<noteq> 1 \<and> (\<exists>cdev. cool_dev d = Some cdev \<and> has_set_cur_temp cdev))
               (dtm_dev_list g)) \<and>
   snd (exynos_pm_notifier PM_POST_SUSPEND g) = [] \<and>
   snd (exynos_pm_notifier PM_OTHER_EVENT g) = []"
proof (intro conjI impI)
  assume "id_tmu data = 1"
  then show "set_cur_temp_calls (exynos_get_temp H g (Some data) m) = []"
    by (simp add: set_cur_temp_calls_def exynos_get_temp_def Let_def
        split: option.splits sum.splits)
next
  assume "id_tmu data \<noteq> 1 \<and> cool_dev data = Some cdev \<and> has_set_cur_temp cdev \<and>
    tmu_read data = Some rd \<and> call_tmu_read rd data m = Inr code \<and>
    code_to_temp H data (word_of_int code) = Inr t"
  then show "exynos_get_temp H g (Some data) m = Inr (0, Some (t * MCELSIUS), [(cdev, suspended g, t)])"
    by (simp add: exynos_get_temp_def Let_def sdiv_mcelsius)
next
  show "snd (exynos_pm_notifier PM_SUSPEND_PREPARE g) =
     map (\<lambda>d. (the (cool_dev d), True, 0))
       (filter (\<lambda>d. id_tmu d \<noteq> 1 \<and> (\<exists>cdev. cool_dev d = Some cdev \<and> has_set_cur_temp cdev))
               (dtm_dev_list g))"
    by (simp add: exynos_pm_notifier_def notify_devs)
qed (simp_all add: exynos_pm_notifier_def)


theorem set_cur_temp_skips_id_1_witness:
  "id_tmu (sample_data\<lparr>id_tmu := 1\<rparr>) = 1 \<and>
   set_cur_temp_calls
     (exynos_get_temp sample_header sample_global (Some (sample_data\<lparr>id_tmu := 1\<rparr>)) sample_bank) = [] \<and>
   id_tmu sample_data \<noteq> 1 \<and> cool_dev sample_data = Some sample_cdev \<and>
   has_set_cur_temp sample_cdev \<and> tmu_read sample_data = Some SOC_ARCH_EXYNOS8895 \<and>
   call_tmu_read SOC_ARCH_EXYNOS8895 sample_data sample_bank = Inr 10 \<and>
   code_to_temp sample_header sample_data (word_of_int 10) = Inr 10 \<and>
   exynos_get_temp sample_header sample_global (Some sample_data) sample_bank
     = Inr (0, Some 10000, [(sample_cdev, False, 10)])"
proof -
  have one: "id_tmu (sample_data\<lparr>id_tmu := 1\<rparr>) = 1" by simp
  have other: "id_tmu sample_data \<noteq> 1" "cool_dev sample_data = Some sample_cdev"
    "has_set_cur_temp sample_cdev" "tmu_read sample_data = Some SOC_ARCH_EXYNOS8895"
    by (simp_all add: sample_data_def sample_cdev_def)
  have rd: "call_tmu_read SOC_ARCH_EXYNOS8895 sample_data sample_bank = Inr 10"
    by (simp add: call_tmu_read_def exynos8895_tmu_read_def exynos8895_tmu_read_sensor_def
        sample_data_def sample_bank_def readl_def upt_sensors main_sensor_only)
  have cv: "code_to_temp sample_header sample_data (word_of_int 10) = Inr 10"
    by (simp add: code_to_temp_def sample_header_def sample_data_def sample_pdata_def)
  have s: "suspended sample_global = False" by (simp add: sample_global_def)
  note thm1 = set_cur_temp_skips_id_1[of "sample_data\<lparr>id_tmu := 1\<rparr>" sample_header sample_global
      sample_bank]
  note thm2 = set_cur_temp_skips_id_1[of sample_data sample_header sample_global sample_bank
      sample_cdev SOC_ARCH_EXYNOS8895 10 10]
  from thm1 one have a: "set_cur_temp_calls
     (exynos_get_temp sample_header sample_global (Some (sample_data\<lparr>id_tmu := 1\<rparr>)) sample_bank) = []"
    by blast
  from thm2 other rd cv s have b: "exynos_get_temp sample_header sample_global (Some sample_data) sample_bank
     = Inr (0, Some 10000, [(sample_cdev, False, 10)])"
    by simp
  show ?thesis using one a other rd cv b by blast
qed


end
